theory Spec2Isabelle
  imports Complex_Main "HOL-Library.Word"
begin

section \<open>The MCM3000 stage controller: data model\<close>

text \<open>
  The development embeds \<^verbatim>\<open>mcm3000_controller.py\<close>. Python integers are \<open>int\<close>.
  Python floats are modelled by exact real arithmetic together with the sign of zero
  (\<open>pyfloat\<close> below), without rounding, overflow to infinity or NaN; the two unit
  conversions, the only float arithmetic of the controller, are embedded a second time
  with the rounding of IEEE 754 binary64 (\<open>round_binary64\<close> below). Exceptions
  are values: every function that can raise returns \<open>error + 'a\<close>, and a function with
  effects returns the controller state and the serial port as they are when it returns
  or raises.
\<close>

type_synonym byte = "8 word"

text \<open>
  The source raises \<^verbatim>\<open>AssertionError\<close> at seven kinds of sites; the constructor of
  \<open>assertion\<close> records which one: the constructor's checks of its arguments and of the
  stage names, \<^verbatim>\<open>channel in self.channels\<close>, the stage of the channel being bound in
  \<^verbatim>\<open>_send\<close>, no byte left waiting after a command, the channel echoed in a reply, and
  the limit checks. The other constructors of \<open>error\<close> are the Python exceptions the
  remaining statements raise. \<open>ReadBlocked\<close> stands for a call of \<^verbatim>\<open>port.read\<close> that
  never returns (the port is opened without a timeout).
\<close>

datatype assertion =
    BadArguments
  | UnsupportedStage
  | ChannelNotAvailable
  | StageNone
  | LinkDesync
  | ProtocolMismatch
  | OutOfRange

datatype error =
    AssertionError assertion
  | TypeError
  | AttributeError
  | KeyError
  | OverflowError
  | ZeroDivisionError
  | RecursionError
  | ReadBlocked

subsection \<open>Floats with a signed zero\<close>

text \<open>
  \<open>Float r\<close> is the float of value \<open>r\<close>, \<open>Float 0\<close> the positive zero, \<open>NegZero\<close> the
  negative one. A product that is zero takes the sign of its factors, negation flips
  the sign of a zero, and a sum that is zero is negative only when both summands are
  the negative zero.
\<close>

datatype pyfloat = Float real | NegZero

fun fval :: "pyfloat \<Rightarrow> real" where
  "fval (Float r) = r"
| "fval NegZero = 0"

fun fsign :: "pyfloat \<Rightarrow> bool" where
  "fsign (Float r) = (r < 0)"
| "fsign NegZero = True"

definition fmul :: "pyfloat \<Rightarrow> pyfloat \<Rightarrow> pyfloat" where
  "fmul a b =
     (if fval a * fval b = 0
      then (if fsign a \<noteq> fsign b then NegZero else Float 0)
      else Float (fval a * fval b))"

fun fneg :: "pyfloat \<Rightarrow> pyfloat" where
  "fneg (Float r) = (if r = 0 then NegZero else Float (- r))"
| "fneg NegZero = Float 0"

definition fadd :: "pyfloat \<Rightarrow> pyfloat \<Rightarrow> pyfloat" where
  "fadd a b =
     (if fval a + fval b = 0
      then (if a = NegZero \<and> b = NegZero then NegZero else Float 0)
      else Float (fval a + fval b))"

text \<open>Python's \<^verbatim>\<open>int(x)\<close> on a float truncates toward zero.\<close>

definition py_int :: "real \<Rightarrow> int" where
  "py_int x = (if 0 \<le> x then \<lfloor>x\<rfloor> else \<lceil>x\<rceil>)"

subsection \<open>Configuration and controller state\<close>

text \<open>
  \<^verbatim>\<open>supported_stages\<close>: stage type to (travel limit in um, um per encoder count).
\<close>

definition supported_stages :: "string \<Rightarrow> (real \<times> real) option" where
  "supported_stages name =
     (if name = ''ZFM2020'' then Some (12700, 2116667 / 10000000) else None)"

text \<open>
  The constructor's arguments, fixed for the life of the controller. The tuples
  \<^verbatim>\<open>stages\<close> and \<^verbatim>\<open>reverse\<close> have three entries and are read at the internal
  channel index 0, 1 or 2 only; they are total maps from that index.
\<close>

record config =
  stages :: "nat \<Rightarrow> string option"
  reverse :: "nat \<Rightarrow> bool"
  channels :: "int list"
  verbose :: bool
  very_verbose :: bool

text \<open>
  \<^verbatim>\<open>dict(zip(self.channels, (0, 1, 2)))\<close>: for a label given twice the later index wins.
\<close>

definition internal_channels_dict :: "config \<Rightarrow> int \<Rightarrow> nat option" where
  "internal_channels_dict cfg = map_of (rev (zip (channels cfg) [0, 1, 2]))"

text \<open>
  An attribute that the constructor creates as a three-element list and that
  \<^verbatim>\<open>set_stage_limit_um\<close> and \<^verbatim>\<open>set_retract_point_um\<close> rebind to a bare float.
\<close>

datatype limits = PerChannel "nat \<Rightarrow> real option" | Scalar real

fun subscript :: "limits \<Rightarrow> nat \<Rightarrow> error + real option" where
  "subscript (PerChannel xs) i = Inr (xs i)"
| "subscript (Scalar x) i = Inl TypeError"

record controller =
  stage_upper_limit_um :: "nat \<Rightarrow> real option"
  stage_lower_limit_um :: "nat \<Rightarrow> real option"
  stage_lowest_scan_point_um :: limits
  stage_highest_scan_point_um :: limits
  stage_retract_point_um :: limits
  stage_conversion_um :: "nat \<Rightarrow> real option"
  current_encoder_value :: "nat \<Rightarrow> int option"
  pending_encoder_value :: "nat \<Rightarrow> int option"

definition min_encoder_motion :: int where
  "min_encoder_motion = 5"

section \<open>Unit conversion\<close>

text \<open>
  The two conversions in exact arithmetic: the product and the quotient are not
  rounded. The same two functions with every float operation rounded to binary64 are
  \<open>um_from_encoder_value_binary64\<close> and \<open>encoder_value_from_um_binary64\<close> below.
\<close>

definition um_from_encoder_value :: "config \<Rightarrow> controller \<Rightarrow> int \<Rightarrow> int \<Rightarrow> error + pyfloat" where
  "um_from_encoder_value cfg st channel encoder_value =
     (case internal_channels_dict cfg channel of
        None \<Rightarrow> Inl KeyError
      | Some i \<Rightarrow>
          (case stage_conversion_um st i of
             None \<Rightarrow> Inl TypeError
           | Some conv \<Rightarrow>
               (let um = fmul (Float (of_int encoder_value)) (Float conv);
                    um = (if reverse cfg i then fneg um else um)
                in Inr (fadd um (Float 0)))))"

definition encoder_value_from_um :: "config \<Rightarrow> controller \<Rightarrow> int \<Rightarrow> real \<Rightarrow> error + int" where
  "encoder_value_from_um cfg st channel um =
     (case internal_channels_dict cfg channel of
        None \<Rightarrow> Inl KeyError
      | Some i \<Rightarrow>
          (case stage_conversion_um st i of
             None \<Rightarrow> Inl TypeError
           | Some conv \<Rightarrow>
               if conv = 0 then Inl ZeroDivisionError
               else
                 (let encoder_value = py_int (um / conv);
                      encoder_value = (if reverse cfg i then - encoder_value else encoder_value)
                  in Inr (encoder_value + 0))))"

text \<open>The conversions as the specification words them, for a bound axis.\<close>

definition spec_um_from_encoder :: "real \<Rightarrow> bool \<Rightarrow> int \<Rightarrow> real" where
  "spec_um_from_encoder conv reversed encoder =
     (if reversed then - (of_int encoder * conv) else of_int encoder * conv)"

definition trunc_toward_zero :: "real \<Rightarrow> int" where
  "trunc_toward_zero x = (if x < 0 then - \<lfloor>- x\<rfloor> else \<lfloor>x\<rfloor>)"

definition spec_encoder_from_um :: "real \<Rightarrow> bool \<Rightarrow> real \<Rightarrow> int" where
  "spec_encoder_from_um conv reversed um =
     (if reversed then - trunc_toward_zero (um / conv) else trunc_toward_zero (um / conv))"

section \<open>The serial port\<close>

text \<open>
  The port is the controller's only view of the device. \<open>written\<close> logs the frames passed
  to \<^verbatim>\<open>port.write\<close> and \<open>received\<close> the byte strings returned by \<^verbatim>\<open>port.read\<close>, oldest
  first. \<open>inbuf\<close> holds the bytes waiting to be read. The device is scripted: it answers
  the next frame written with the next entry of \<open>replies\<close>, a latency in milliseconds and
  the bytes that arrive (none for a frame it does not answer). \<open>clock\<close> is the time in
  milliseconds that \<^verbatim>\<open>time.time()\<close> reads.
\<close>

record device =
  written :: "byte list list"
  received :: "byte list list"
  inbuf :: "byte list"
  replies :: "(nat \<times> byte list) list"
  clock :: nat

definition port_write :: "byte list \<Rightarrow> device \<Rightarrow> device" where
  "port_write cmd dev =
     (case replies dev of
        [] \<Rightarrow> dev\<lparr>written := written dev @ [cmd]\<rparr>
      | (latency, bs) # rest \<Rightarrow>
          dev\<lparr>written := written dev @ [cmd], inbuf := inbuf dev @ bs,
              replies := rest, clock := clock dev + latency\<rparr>)"

definition port_read :: "nat \<Rightarrow> device \<Rightarrow> (error + byte list) \<times> device" where
  "port_read n dev =
     (if length (inbuf dev) < n then (Inl ReadBlocked, dev)
      else (Inr (take n (inbuf dev)),
            dev\<lparr>inbuf := drop n (inbuf dev), received := received dev @ [take n (inbuf dev)]\<rparr>))"

definition sleep :: "nat \<Rightarrow> device \<Rightarrow> device" where
  "sleep ms dev = dev\<lparr>clock := clock dev + ms\<rparr>"

subsection \<open>Integers on the wire\<close>

text \<open>\<^verbatim>\<open>int.from_bytes(bs, byteorder='little', signed=True)\<close>.\<close>

fun from_bytes_little :: "byte list \<Rightarrow> int" where
  "from_bytes_little [] = 0"
| "from_bytes_little (b # bs) = uint b + 256 * from_bytes_little bs"

definition from_bytes_little_signed :: "byte list \<Rightarrow> int" where
  "from_bytes_little_signed bs =
     (let v = from_bytes_little bs
      in if bs \<noteq> [] \<and> 2 ^ (8 * length bs - 1) \<le> v then v - 2 ^ (8 * length bs) else v)"

text \<open>
  \<^verbatim>\<open>v.to_bytes(n, byteorder='little', signed=...)\<close>; it raises \<^verbatim>\<open>OverflowError\<close> when
  \<open>v\<close> does not fit.
\<close>

fun bytes_little :: "nat \<Rightarrow> int \<Rightarrow> byte list" where
  "bytes_little 0 v = []"
| "bytes_little (Suc n) v = word_of_int (v mod 256) # bytes_little n (v div 256)"

definition to_bytes_little :: "nat \<Rightarrow> bool \<Rightarrow> int \<Rightarrow> error + byte list" where
  "to_bytes_little n is_signed v =
     (if is_signed
      then (if n \<noteq> 0 \<and> - (2 ^ (8 * n - 1)) \<le> v \<and> v < 2 ^ (8 * n - 1)
            then Inr (bytes_little n (v mod 2 ^ (8 * n)))
            else if n = 0 \<and> v = 0 then Inr []
            else Inl OverflowError)
      else (if 0 \<le> v \<and> v < 2 ^ (8 * n) then Inr (bytes_little n v) else Inl OverflowError))"

section \<open>Protocol and transport\<close>

definition send :: "config \<Rightarrow> byte list \<Rightarrow> int \<Rightarrow> nat option \<Rightarrow> device \<Rightarrow> (error + byte list option) \<times> device" where
  "send cfg cmd channel response_bytes dev =
     (case internal_channels_dict cfg channel of
        None \<Rightarrow> (Inl KeyError, dev)
      | Some i \<Rightarrow>
          if stages cfg i = None then (Inl (AssertionError StageNone), dev)
          else
            (let dev1 = port_write cmd dev
             in case (case response_bytes of
                        None \<Rightarrow> (Inr None, dev1)
                      | Some n \<Rightarrow>
                          (case port_read n dev1 of
                             (Inl e, dev2) \<Rightarrow> (Inl e, dev2)
                           | (Inr bs, dev2) \<Rightarrow> (Inr (Some bs), dev2))) of
                  (Inl e, dev2) \<Rightarrow> (Inl e, dev2)
                | (Inr response, dev2) \<Rightarrow>
                    if inbuf dev2 \<noteq> [] then (Inl (AssertionError LinkDesync), dev2)
                    else (Inr response, dev2)))"

definition query_cmd :: "byte list \<Rightarrow> byte list" where
  "query_cmd channel_byte = [0x0a, 0x04] @ channel_byte @ [0x00, 0x00, 0x00]"

definition get_encoder_value :: "config \<Rightarrow> int \<Rightarrow> device \<Rightarrow> (error + int) \<times> device" where
  "get_encoder_value cfg channel dev =
     (if channel \<notin> set (channels cfg) then (Inl (AssertionError ChannelNotAvailable), dev)
      else
        case internal_channels_dict cfg channel of
          None \<Rightarrow> (Inl KeyError, dev)
        | Some i \<Rightarrow>
            (case to_bytes_little 1 False (int i) of
               Inl e \<Rightarrow> (Inl e, dev)
             | Inr channel_byte \<Rightarrow>
                 (case send cfg (query_cmd channel_byte) channel (Some 12) dev of
                    (Inl e, dev1) \<Rightarrow> (Inl e, dev1)
                  | (Inr None, dev1) \<Rightarrow> (Inl TypeError, dev1)
                  | (Inr (Some response), dev1) \<Rightarrow>
                      if take 1 (drop 6 response) \<noteq> channel_byte
                      then (Inl (AssertionError ProtocolMismatch), dev1)
                      else (Inr (from_bytes_little_signed (drop (length response - 4) response)),
                            dev1))))"

section \<open>Resolving and issuing moves\<close>

lemma get_encoder_value_clock:
  "get_encoder_value cfg channel dev = (r, dev') \<Longrightarrow> clock dev \<le> clock dev'"
  by (auto simp: get_encoder_value_def send_def port_write_def port_read_def Let_def
      split: if_splits option.splits sum.splits prod.splits list.splits)

text \<open>
  The \<^verbatim>\<open>while True\<close> loop of \<^verbatim>\<open>_finish_move\<close>. \<open>pending\<close> is
  \<^verbatim>\<open>self._pending_encoder_value[...]\<close>, which the loop reads and never writes;
  \<open>timeout\<close> is the deadline in milliseconds. Every round sleeps 100 ms, so the clock
  passes the deadline after finitely many rounds.
\<close>

function finish_move_loop :: "config \<Rightarrow> int \<Rightarrow> int \<Rightarrow> nat \<Rightarrow> int \<Rightarrow> device \<Rightarrow> (error + int) \<times> device" where
  "finish_move_loop cfg channel pending timeout current dev =
     (if current = pending then (Inr current, dev)
      else if timeout < clock dev then (Inr current, dev)
      else
        (case get_encoder_value cfg channel (sleep 100 dev) of
           (Inl e, dev1) \<Rightarrow> (Inl e, dev1)
         | (Inr current1, dev1) \<Rightarrow> finish_move_loop cfg channel pending timeout current1 dev1))"
  by pat_completeness auto
termination
proof (relation "measure (\<lambda>(cfg, channel, pending, timeout, current, dev). Suc timeout - clock dev)")
  show "wf (measure (\<lambda>(cfg, channel, pending, timeout, current, dev). Suc timeout - clock dev))"
    by simp
next
  fix cfg :: config and channel pending :: int and timeout :: nat and current :: int
    and dev :: device and x y xa
  assume late: "\<not> timeout < clock dev"
    and call: "(x, y) = get_encoder_value cfg channel (sleep 100 dev)"
  from call have "clock (sleep 100 dev) \<le> clock y"
    by (metis get_encoder_value_clock)
  then have "clock dev + 100 \<le> clock y"
    by (simp add: sleep_def)
  with late show "((cfg, channel, pending, timeout, xa, y), (cfg, channel, pending, timeout, current, dev))
      \<in> measure (\<lambda>(cfg, channel, pending, timeout, current, dev). Suc timeout - clock dev)"
    by simp
qed

declare finish_move_loop.simps [simp del]

definition finish_move :: "config \<Rightarrow> int \<Rightarrow> controller \<Rightarrow> device \<Rightarrow> (error + (int \<times> pyfloat) option) \<times> controller \<times> device" where
  "finish_move cfg channel st dev =
     (if channel \<notin> set (channels cfg) then (Inl (AssertionError ChannelNotAvailable), st, dev)
      else
        case internal_channels_dict cfg channel of
          None \<Rightarrow> (Inl KeyError, st, dev)
        | Some i \<Rightarrow>
            (case pending_encoder_value st i of
               None \<Rightarrow> (Inr None, st, dev)
             | Some pending \<Rightarrow>
                 (case get_encoder_value cfg channel dev of
                    (Inl e, dev1) \<Rightarrow> (Inl e, st, dev1)
                  | (Inr current, dev1) \<Rightarrow>
                      (let timeout = clock dev1 + 6000
                       in case finish_move_loop cfg channel pending timeout current dev1 of
                            (Inl e, dev2) \<Rightarrow> (Inl e, st, dev2)
                          | (Inr current, dev2) \<Rightarrow>
                              (let st1 = st\<lparr>current_encoder_value :=
                                               (current_encoder_value st)(i := Some current)\<rparr>
                               in case um_from_encoder_value cfg st1 channel current of
                                    Inl e \<Rightarrow> (Inl e, st1, dev2)
                                  | Inr current_position_um \<Rightarrow>
                                      (Inr (Some (current, current_position_um)),
                                       st1\<lparr>pending_encoder_value :=
                                              (pending_encoder_value st1)(i := None)\<rparr>,
                                       dev2))))))"

definition move_cmd :: "byte list \<Rightarrow> byte list \<Rightarrow> byte list" where
  "move_cmd channel_bytes encoder_bytes =
     [0x53, 0x04, 0x06, 0x00, 0x00, 0x00] @ channel_bytes @ encoder_bytes"

definition move_to_encoder_value :: "config \<Rightarrow> int \<Rightarrow> int \<Rightarrow> bool \<Rightarrow> controller \<Rightarrow> device \<Rightarrow> (error + unit) \<times> controller \<times> device" where
  "move_to_encoder_value cfg channel encoder_value block st dev =
     (if channel \<notin> set (channels cfg) then (Inl (AssertionError ChannelNotAvailable), st, dev)
      else
        case internal_channels_dict cfg channel of
          None \<Rightarrow> (Inl KeyError, st, dev)
        | Some i \<Rightarrow>
            (case (if pending_encoder_value st i \<noteq> None then finish_move cfg channel st dev
                   else (Inr None, st, dev)) of
               (Inl e, st1, dev1) \<Rightarrow> (Inl e, st1, dev1)
             | (Inr _, st1, dev1) \<Rightarrow>
                 (case to_bytes_little 4 True encoder_value of
                    Inl e \<Rightarrow> (Inl e, st1, dev1)
                  | Inr encoder_bytes \<Rightarrow>
                      (case to_bytes_little 2 False (int i) of
                         Inl e \<Rightarrow> (Inl e, st1, dev1)
                       | Inr channel_bytes \<Rightarrow>
                           (case send cfg (move_cmd channel_bytes encoder_bytes) channel None dev1 of
                              (Inl e, dev2) \<Rightarrow> (Inl e, st1, dev2)
                            | (Inr _, dev2) \<Rightarrow>
                                (let st2 = st1\<lparr>pending_encoder_value :=
                                                  (pending_encoder_value st1)(i := Some encoder_value)\<rparr>
                                 in if block
                                    then (case finish_move cfg channel st2 dev2 of
                                            (Inl e, st3, dev3) \<Rightarrow> (Inl e, st3, dev3)
                                          | (Inr _, st3, dev3) \<Rightarrow> (Inr (), st3, dev3))
                                    else (Inr (), st2, dev2)))))))"

text \<open>
  \<^verbatim>\<open>get_position_um\<close> returns the value of the float; the sign of a zero is dropped
  here, since no caller reads it.
\<close>

definition get_position_um :: "config \<Rightarrow> int \<Rightarrow> controller \<Rightarrow> device \<Rightarrow> (error + real) \<times> device" where
  "get_position_um cfg channel st dev =
     (if channel \<notin> set (channels cfg) then (Inl (AssertionError ChannelNotAvailable), dev)
      else
        case get_encoder_value cfg channel dev of
          (Inl e, dev1) \<Rightarrow> (Inl e, dev1)
        | (Inr encoder_value, dev1) \<Rightarrow>
            (case um_from_encoder_value cfg st channel encoder_value of
               Inl e \<Rightarrow> (Inl e, dev1)
             | Inr position_um \<Rightarrow> (Inr (fval position_um), dev1)))"

section \<open>Limit and retract management\<close>

text \<open>Truth values of \<^verbatim>\<open>if x:\<close> for an optional number: \<^verbatim>\<open>None\<close> and zero are false.\<close>

fun truthy_float :: "real option \<Rightarrow> bool" where
  "truthy_float None = False"
| "truthy_float (Some x) = (x \<noteq> 0)"

fun truthy_int :: "int option \<Rightarrow> bool" where
  "truthy_int None = False"
| "truthy_int (Some x) = (x \<noteq> 0)"

text \<open>
  Comparisons of Python 3: \<^verbatim>\<open>None\<close> against a float, and a list against a float, raise
  \<^verbatim>\<open>TypeError\<close>. A chain \<^verbatim>\<open>a <= t <= b\<close> compares \<open>t\<close> with \<open>b\<close> only when
  \<^verbatim>\<open>a <= t\<close> holds.
\<close>

fun py_le :: "real option \<Rightarrow> real option \<Rightarrow> error + bool" where
  "py_le (Some a) (Some b) = Inr (a \<le> b)"
| "py_le _ _ = Inl TypeError"

definition chain_le :: "real option \<Rightarrow> real \<Rightarrow> real option \<Rightarrow> error + bool" where
  "chain_le a t b =
     (case py_le a (Some t) of
        Inl e \<Rightarrow> Inl e
      | Inr False \<Rightarrow> Inr False
      | Inr True \<Rightarrow> py_le (Some t) b)"

definition chain_ge :: "real option \<Rightarrow> real \<Rightarrow> real option \<Rightarrow> error + bool" where
  "chain_ge a t b =
     (case py_le (Some t) a of
        Inl e \<Rightarrow> Inl e
      | Inr False \<Rightarrow> Inr False
      | Inr True \<Rightarrow> py_le b (Some t))"

fun limits_lt :: "limits \<Rightarrow> limits \<Rightarrow> error + bool" where
  "limits_lt (Scalar a) (Scalar b) = Inr (a < b)"
| "limits_lt _ _ = Inl TypeError"

definition set_stage_limit_um :: "config \<Rightarrow> int \<Rightarrow> bool \<Rightarrow> real option \<Rightarrow> controller \<Rightarrow> device \<Rightarrow> (error + real) \<times> controller \<times> device" where
  "set_stage_limit_um cfg channel lower_limit limit_um st dev =
     (if channel \<notin> set (channels cfg) then (Inl (AssertionError ChannelNotAvailable), st, dev)
      else
        case internal_channels_dict cfg channel of
          None \<Rightarrow> (Inl KeyError, st, dev)
        | Some i \<Rightarrow>
            (case (if truthy_float limit_um then (Inr (the limit_um), dev)
                   else get_position_um cfg channel st dev) of
               (Inl e, dev1) \<Rightarrow> (Inl e, st, dev1)
             | (Inr target_limit_um, dev1) \<Rightarrow>
                 (case (if reverse cfg i
                        then chain_ge (stage_lower_limit_um st i) target_limit_um
                               (stage_upper_limit_um st i)
                        else chain_le (stage_lower_limit_um st i) target_limit_um
                               (stage_upper_limit_um st i)) of
                    Inl e \<Rightarrow> (Inl e, st, dev1)
                  | Inr False \<Rightarrow> (Inl (AssertionError OutOfRange), st, dev1)
                  | Inr True \<Rightarrow>
                      if lower_limit
                      then (Inr target_limit_um,
                            st\<lparr>stage_lowest_scan_point_um := Scalar target_limit_um\<rparr>, dev1)
                      else
                        (let st1 = st\<lparr>stage_highest_scan_point_um := Scalar target_limit_um\<rparr>
                         in case (if reverse cfg i
                                  then limits_lt (stage_retract_point_um st1)
                                         (stage_highest_scan_point_um st1)
                                  else limits_lt (stage_highest_scan_point_um st1)
                                         (stage_retract_point_um st1)) of
                              Inl e \<Rightarrow> (Inl e, st1, dev1)
                            | Inr False \<Rightarrow> (Inr target_limit_um, st1, dev1)
                            | Inr True \<Rightarrow>
                                (case subscript (stage_highest_scan_point_um st1) i of
                                   Inl e \<Rightarrow> (Inl e, st1, dev1)
                                 | Inr _ \<Rightarrow>
                                     (Inl (AssertionError ChannelNotAvailable), st1, dev1))))))"

text \<open>
  In the last branch the source evaluates
  \<^verbatim>\<open>self._stage_highest_scan_point_um[...]\<close> as an argument of
  \<^verbatim>\<open>self.set_retract_point_um(self, channel, ...)\<close>; were that to return, the call
  would bind \<^verbatim>\<open>self\<close> to the parameter \<^verbatim>\<open>channel\<close> and fail the first assertion
  of \<^verbatim>\<open>set_retract_point_um\<close>.
\<close>

definition set_retract_point_um :: "config \<Rightarrow> int \<Rightarrow> real option \<Rightarrow> bool \<Rightarrow> controller \<Rightarrow> device \<Rightarrow> (error + real) \<times> controller \<times> device" where
  "set_retract_point_um cfg channel retract_um_pos relative st dev =
     (if channel \<notin> set (channels cfg) then (Inl (AssertionError ChannelNotAvailable), st, dev)
      else
        case internal_channels_dict cfg channel of
          None \<Rightarrow> (Inl KeyError, st, dev)
        | Some i \<Rightarrow>
            (case (if truthy_float retract_um_pos
                   then (if relative
                         then (case get_position_um cfg channel st dev of
                                 (Inl e, dev1) \<Rightarrow> (Inl e, dev1)
                               | (Inr position_um, dev1) \<Rightarrow>
                                   (Inr (the retract_um_pos + position_um), dev1))
                         else (Inr (the retract_um_pos), dev))
                   else get_position_um cfg channel st dev) of
               (Inl e, dev1) \<Rightarrow> (Inl e, st, dev1)
             | (Inr target_retract_um, dev1) \<Rightarrow>
                 (case subscript (stage_lowest_scan_point_um st) i of
                    Inl e \<Rightarrow> (Inl e, st, dev1)
                  | Inr lowest \<Rightarrow>
                      if reverse cfg i
                      then
                        (case py_le lowest (Some target_retract_um) of
                           Inl e \<Rightarrow> (Inl e, st, dev1)
                         | Inr False \<Rightarrow>
                             (case subscript (stage_highest_scan_point_um st) i of
                                Inl e \<Rightarrow> (Inl e, st, dev1)
                              | Inr _ \<Rightarrow> (Inl (AssertionError OutOfRange), st, dev1))
                         | Inr True \<Rightarrow>
                             (case subscript (stage_highest_scan_point_um st) i of
                                Inl e \<Rightarrow> (Inl e, st, dev1)
                              | Inr highest \<Rightarrow>
                                  (case py_le (Some target_retract_um) highest of
                                     Inl e \<Rightarrow> (Inl e, st, dev1)
                                   | Inr False \<Rightarrow> (Inl (AssertionError OutOfRange), st, dev1)
                                   | Inr True \<Rightarrow>
                                       (Inr target_retract_um,
                                        st\<lparr>stage_retract_point_um := Scalar target_retract_um\<rparr>,
                                        dev1))))
                      else
                        (case py_le (Some target_retract_um) lowest of
                           Inl e \<Rightarrow> (Inl e, st, dev1)
                         | Inr False \<Rightarrow> (Inl AttributeError, st, dev1)
                         | Inr True \<Rightarrow>
                             (case subscript (stage_highest_scan_point_um st) i of
                                Inl e \<Rightarrow> (Inl e, st, dev1)
                              | Inr highest \<Rightarrow>
                                  (case py_le highest (Some target_retract_um) of
                                     Inl e \<Rightarrow> (Inl e, st, dev1)
                                   | Inr False \<Rightarrow> (Inl AttributeError, st, dev1)
                                   | Inr True \<Rightarrow>
                                       (Inr target_retract_um,
                                        st\<lparr>stage_retract_point_um := Scalar target_retract_um\<rparr>,
                                        dev1)))))))"

text \<open>
  When an assertion of \<^verbatim>\<open>set_retract_point_um\<close> fails, Python evaluates its message.
  On a reversed axis the message subscripts both scan points again; on the other
  branch it reads \<^verbatim>\<open>self._stage._lowest_scan_point_um\<close>, an attribute that does not
  exist, so that \<^verbatim>\<open>AttributeError\<close> is raised in place of the assertion's error.
\<close>

text \<open>
  \<^verbatim>\<open>_reverse_limit_signs\<close> negates the five limits of a channel one after the other;
  negating \<^verbatim>\<open>None\<close> and subscripting a float raise \<^verbatim>\<open>TypeError\<close>, and the
  assignments made before that stay.
\<close>

definition negate_item :: "limits \<Rightarrow> nat \<Rightarrow> error + limits" where
  "negate_item l i =
     (case l of
        Scalar x \<Rightarrow> Inl TypeError
      | PerChannel xs \<Rightarrow>
          (case xs i of
             None \<Rightarrow> Inl TypeError
           | Some v \<Rightarrow> Inr (PerChannel (xs(i := Some (- v))))))"

definition reverse_limit_signs :: "config \<Rightarrow> int \<Rightarrow> controller \<Rightarrow> (error + unit) \<times> controller" where
  "reverse_limit_signs cfg channel st =
     (if channel \<notin> set (channels cfg) then (Inl (AssertionError ChannelNotAvailable), st)
      else
        case internal_channels_dict cfg channel of
          None \<Rightarrow> (Inl KeyError, st)
        | Some i \<Rightarrow>
            (case stage_upper_limit_um st i of
               None \<Rightarrow> (Inl TypeError, st)
             | Some upper \<Rightarrow>
                 (let st1 = st\<lparr>stage_upper_limit_um := (stage_upper_limit_um st)(i := Some (- upper))\<rparr>
                  in case stage_lower_limit_um st1 i of
                       None \<Rightarrow> (Inl TypeError, st1)
                     | Some lower \<Rightarrow>
                         (let st2 = st1\<lparr>stage_lower_limit_um :=
                                           (stage_lower_limit_um st1)(i := Some (- lower))\<rparr>
                          in case negate_item (stage_highest_scan_point_um st2) i of
                               Inl e \<Rightarrow> (Inl e, st2)
                             | Inr highest \<Rightarrow>
                                 (let st3 = st2\<lparr>stage_highest_scan_point_um := highest\<rparr>
                                  in case negate_item (stage_lowest_scan_point_um st3) i of
                                       Inl e \<Rightarrow> (Inl e, st3)
                                     | Inr lowest \<Rightarrow>
                                         (let st4 = st3\<lparr>stage_lowest_scan_point_um := lowest\<rparr>
                                          in case negate_item (stage_retract_point_um st4) i of
                                               Inl e \<Rightarrow> (Inl e, st4)
                                             | Inr retract \<Rightarrow>
                                                 (Inr (), st4\<lparr>stage_retract_point_um := retract\<rparr>)))))))"

section \<open>Legalizing and executing moves\<close>

text \<open>
  \<^verbatim>\<open>_check_min_motion\<close> calls \<^verbatim>\<open>move_um\<close>, which calls \<^verbatim>\<open>legalize_move_um\<close>, which calls
  \<^verbatim>\<open>_check_min_motion\<close> again. \<open>fuel\<close> bounds the depth of that recursion as the
  interpreter's recursion limit does: a nudge requested with no fuel left is
  \<^verbatim>\<open>RecursionError\<close>. The parameter \<^verbatim>\<open>move_um\<close> of the source is written \<open>um\<close>.
\<close>

function check_min_motion :: "nat \<Rightarrow> config \<Rightarrow> int \<Rightarrow> int \<Rightarrow> controller \<Rightarrow> device \<Rightarrow> (error + bool) \<times> controller \<times> device"
  and legalize_move_um :: "nat \<Rightarrow> config \<Rightarrow> int \<Rightarrow> real \<Rightarrow> bool \<Rightarrow> bool \<Rightarrow> controller \<Rightarrow> device \<Rightarrow> (error + real option) \<times> controller \<times> device"
  and move_um :: "nat \<Rightarrow> config \<Rightarrow> int \<Rightarrow> real \<Rightarrow> bool \<Rightarrow> bool \<Rightarrow> bool \<Rightarrow> controller \<Rightarrow> device \<Rightarrow> (error + real option) \<times> controller \<times> device"
  where
  "check_min_motion fuel cfg channel target_encoder_value st dev =
     (case internal_channels_dict cfg channel of
        None \<Rightarrow> (Inl KeyError, st, dev)
      | Some i \<Rightarrow>
          if truthy_int (pending_encoder_value st i)
          then
            (if target_encoder_value = the (pending_encoder_value st i) then (Inr False, st, dev)
             else if \<bar>target_encoder_value - the (pending_encoder_value st i)\<bar> \<le> min_encoder_motion
             then
               (case fuel of
                  0 \<Rightarrow> (Inl RecursionError, st, dev)
                | Suc n \<Rightarrow>
                    (case move_um n cfg channel 10 True True False st dev of
                       (Inl e, st1, dev1) \<Rightarrow> (Inl e, st1, dev1)
                     | (Inr _, st1, dev1) \<Rightarrow> (Inr True, st1, dev1)))
             else (Inr True, st, dev))
          else
            (case current_encoder_value st i of
               None \<Rightarrow> (Inl TypeError, st, dev)
             | Some current \<Rightarrow>
                 if target_encoder_value = current then (Inr False, st, dev)
                 else if \<bar>target_encoder_value - current\<bar> \<le> min_encoder_motion
                 then
                   (case fuel of
                      0 \<Rightarrow> (Inl RecursionError, st, dev)
                    | Suc n \<Rightarrow>
                        (case move_um n cfg channel 10 True True False st dev of
                           (Inl e, st1, dev1) \<Rightarrow> (Inl e, st1, dev1)
                         | (Inr _, st1, dev1) \<Rightarrow> (Inr True, st1, dev1)))
                 else (Inr True, st, dev)))"
| "legalize_move_um fuel cfg channel um relative verbose_arg st dev =
     (if channel \<notin> set (channels cfg) then (Inl (AssertionError ChannelNotAvailable), st, dev)
      else
        case encoder_value_from_um cfg st channel um of
          Inl e \<Rightarrow> (Inl e, st, dev)
        | Inr requested \<Rightarrow>
            (case internal_channels_dict cfg channel of
               None \<Rightarrow> (Inl KeyError, st, dev)
             | Some i \<Rightarrow>
                 (case (if relative
                        then (if truthy_int (pending_encoder_value st i)
                              then Inr (requested + the (pending_encoder_value st i))
                              else (case current_encoder_value st i of
                                      None \<Rightarrow> Inl TypeError
                                    | Some current \<Rightarrow> Inr (requested + current)))
                        else Inr requested) of
                    Inl e \<Rightarrow> (Inl e, st, dev)
                  | Inr target_encoder_value \<Rightarrow>
                      (case check_min_motion fuel cfg channel target_encoder_value st dev of
                         (Inl e, st1, dev1) \<Rightarrow> (Inl e, st1, dev1)
                       | (Inr False, st1, dev1) \<Rightarrow> (Inr None, st1, dev1)
                       | (Inr True, st1, dev1) \<Rightarrow>
                           (case um_from_encoder_value cfg st1 channel target_encoder_value of
                              Inl e \<Rightarrow> (Inl e, st1, dev1)
                            | Inr target_move_um \<Rightarrow>
                                (case subscript (stage_lowest_scan_point_um st1) i of
                                   Inl e \<Rightarrow> (Inl e, st1, dev1)
                                 | Inr lowest \<Rightarrow>
                                     (let lower_limit_um =
                                            (if truthy_float lowest then lowest
                                             else stage_lower_limit_um st1 i)
                                      in case subscript (stage_highest_scan_point_um st1) i of
                                           Inl e \<Rightarrow> (Inl e, st1, dev1)
                                         | Inr highest \<Rightarrow>
                                             (let upper_limit_um =
                                                    (if truthy_float highest then highest
                                                     else stage_upper_limit_um st1 i)
                                              in case (if reverse cfg i
                                                       then chain_ge lower_limit_um (fval target_move_um)
                                                              upper_limit_um
                                                       else chain_le lower_limit_um (fval target_move_um)
                                                              upper_limit_um) of
                                                   Inl e \<Rightarrow> (Inl e, st1, dev1)
                                                 | Inr False \<Rightarrow>
                                                     (Inl (AssertionError OutOfRange), st1, dev1)
                                                 | Inr True \<Rightarrow>
                                                     (Inr (Some (fval target_move_um)), st1, dev1)))))))))"
| "move_um fuel cfg channel um relative block verbose_arg st dev =
     (if channel \<notin> set (channels cfg) then (Inl (AssertionError ChannelNotAvailable), st, dev)
      else
        case legalize_move_um fuel cfg channel um relative verbose_arg st dev of
          (Inl e, st1, dev1) \<Rightarrow> (Inl e, st1, dev1)
        | (Inr legal_move_um, st1, dev1) \<Rightarrow>
            if \<not> truthy_float legal_move_um
            then
              (if verbose cfg
               then (case get_position_um cfg channel st1 dev1 of
                       (Inl e, dev2) \<Rightarrow> (Inl e, st1, dev2)
                     | (Inr _, dev2) \<Rightarrow> (Inr None, st1, dev2))
               else (Inr None, st1, dev1))
            else
              (case encoder_value_from_um cfg st1 channel (the legal_move_um) of
                 Inl e \<Rightarrow> (Inl e, st1, dev1)
               | Inr encoder_value \<Rightarrow>
                   (case move_to_encoder_value cfg channel encoder_value block st1 dev1 of
                      (Inl e, st2, dev2) \<Rightarrow> (Inl e, st2, dev2)
                    | (Inr _, st2, dev2) \<Rightarrow>
                        (case (if block then finish_move cfg channel st2 dev2
                               else (Inr None, st2, dev2)) of
                           (Inl e, st3, dev3) \<Rightarrow> (Inl e, st3, dev3)
                         | (Inr _, st3, dev3) \<Rightarrow>
                             if verbose_arg
                             then (case get_position_um cfg channel st3 dev3 of
                                     (Inl e, dev4) \<Rightarrow> (Inl e, st3, dev4)
                                   | (Inr _, dev4) \<Rightarrow> (Inr legal_move_um, st3, dev4))
                             else (Inr legal_move_um, st3, dev3)))))"
  by pat_completeness auto
termination
  by (relation "measures
        [\<lambda>x. case x of Inl (fuel, _) \<Rightarrow> fuel | Inr (Inl (fuel, _)) \<Rightarrow> fuel | Inr (Inr (fuel, _)) \<Rightarrow> fuel,
         \<lambda>x. case x of Inl _ \<Rightarrow> 0 | Inr (Inl _) \<Rightarrow> 1 | Inr (Inr _) \<Rightarrow> 2]") auto

declare check_min_motion.simps [simp del]
declare legalize_move_um.simps [simp del]
declare move_um.simps [simp del]

definition move_zero :: "nat \<Rightarrow> config \<Rightarrow> int \<Rightarrow> bool \<Rightarrow> controller \<Rightarrow> device \<Rightarrow> (error + real option) \<times> controller \<times> device" where
  "move_zero fuel cfg channel block st dev =
     (if channel \<notin> set (channels cfg) then (Inl (AssertionError ChannelNotAvailable), st, dev)
      else move_um fuel cfg channel 0 False block False st dev)"

section \<open>Construction\<close>

text \<open>
  \<^verbatim>\<open>__init__\<close>, from the assertions on its arguments onwards (the port is taken as
  opened). The loop over \<^verbatim>\<open>enumerate(stages)\<close> is unrolled over the internal channels
  0, 1, 2 by \<open>init_stages\<close>; \<open>init_stage\<close> is one round of it.
\<close>

definition empty_controller :: controller where
  "empty_controller =
     \<lparr>stage_upper_limit_um = (\<lambda>_. None), stage_lower_limit_um = (\<lambda>_. None),
      stage_lowest_scan_point_um = PerChannel (\<lambda>_. None),
      stage_highest_scan_point_um = PerChannel (\<lambda>_. None),
      stage_retract_point_um = PerChannel (\<lambda>_. None),
      stage_conversion_um = (\<lambda>_. None), current_encoder_value = (\<lambda>_. None),
      pending_encoder_value = (\<lambda>_. None)\<rparr>"

definition reverse_factors :: "config \<Rightarrow> nat \<Rightarrow> real" where
  "reverse_factors cfg i = (if reverse cfg i then - 1 else 1)"

fun set_item :: "limits \<Rightarrow> nat \<Rightarrow> real \<Rightarrow> error + limits" where
  "set_item (PerChannel xs) i v = Inr (PerChannel (xs(i := Some v)))"
| "set_item (Scalar x) i v = Inl TypeError"

definition init_stage :: "config \<Rightarrow> nat \<Rightarrow> controller \<Rightarrow> device \<Rightarrow> (error + controller) \<times> device" where
  "init_stage cfg channel st dev =
     (case stages cfg channel of
        None \<Rightarrow> (Inr st, dev)
      | Some stage \<Rightarrow>
          (case supported_stages stage of
             None \<Rightarrow> (Inl (AssertionError UnsupportedStage), dev)
           | Some (limit_um, conversion_um) \<Rightarrow>
               (let upper = limit_um * reverse_factors cfg channel;
                    lower = - limit_um * reverse_factors cfg channel
                in case set_item (stage_highest_scan_point_um st) channel upper of
                     Inl e \<Rightarrow> (Inl e, dev)
                   | Inr highest \<Rightarrow>
                       (case set_item (stage_lowest_scan_point_um st) channel lower of
                          Inl e \<Rightarrow> (Inl e, dev)
                        | Inr lowest \<Rightarrow>
                            (case set_item (stage_retract_point_um st) channel
                                    (upper - conversion_um * reverse_factors cfg channel) of
                               Inl e \<Rightarrow> (Inl e, dev)
                             | Inr retract \<Rightarrow>
                                 (case get_encoder_value cfg (channels cfg ! channel) dev of
                                    (Inl e, dev1) \<Rightarrow> (Inl e, dev1)
                                  | (Inr encoder_value, dev1) \<Rightarrow>
                                      (Inr (st\<lparr>stage_upper_limit_um :=
                                                  (stage_upper_limit_um st)(channel := Some upper),
                                                stage_lower_limit_um :=
                                                  (stage_lower_limit_um st)(channel := Some lower),
                                                stage_conversion_um :=
                                                  (stage_conversion_um st)(channel := Some conversion_um),
                                                stage_highest_scan_point_um := highest,
                                                stage_lowest_scan_point_um := lowest,
                                                stage_retract_point_um := retract,
                                                current_encoder_value :=
                                                  (current_encoder_value st)(channel := Some encoder_value)\<rparr>),
                                       dev1)))))))"

fun init_stages :: "config \<Rightarrow> nat list \<Rightarrow> controller \<Rightarrow> device \<Rightarrow> (error + controller) \<times> device" where
  "init_stages cfg [] st dev = (Inr st, dev)"
| "init_stages cfg (channel # rest) st dev =
     (case init_stage cfg channel st dev of
        (Inl e, dev1) \<Rightarrow> (Inl e, dev1)
      | (Inr st1, dev1) \<Rightarrow> init_stages cfg rest st1 dev1)"

definition init :: "config \<Rightarrow> device \<Rightarrow> (error + controller) \<times> device" where
  "init cfg dev =
     (if length (channels cfg) \<noteq> 3 then (Inl (AssertionError BadArguments), dev)
      else if list_ex (\<lambda>i. case stages cfg i of
                                 None \<Rightarrow> False
                               | Some stage \<Rightarrow> supported_stages stage = None) [0, 1, 2]
      then (Inl (AssertionError UnsupportedStage), dev)
      else init_stages cfg [0, 1, 2] empty_controller dev)"

section \<open>Concrete controllers used in the examples\<close>

text \<open>A device reply to a position query: 12 bytes, the channel at byte 6, the encoder last.\<close>

definition position_reply :: "nat \<Rightarrow> int \<Rightarrow> byte list" where
  "position_reply i encoder =
     [0x0a, 0x04, 0x06, 0x00, 0x00, 0x00, of_nat i, 0x00] @ bytes_little 4 (encoder mod 2 ^ 32)"

definition idle_port :: "(nat \<times> byte list) list \<Rightarrow> device" where
  "idle_port script = \<lparr>written = [], received = [], inbuf = [], replies = script, clock = 0\<rparr>"

text \<open>
  \<^verbatim>\<open>MCM3000Controller(port, stages=('ZFM2020', None, None), reverse=(r, False, False),
  verbose=False)\<close> and the state its constructor leaves when the device reports the
  encoder value \<open>encoder\<close> for channel 1.
\<close>

definition one_stage_config :: "bool \<Rightarrow> config" where
  "one_stage_config r =
     \<lparr>stages = (\<lambda>_. None)(0 := Some ''ZFM2020''), reverse = (\<lambda>_. False)(0 := r),
      channels = [1, 2, 3], verbose = False, very_verbose = False\<rparr>"

definition one_stage_controller :: "bool \<Rightarrow> int \<Rightarrow> controller" where
  "one_stage_controller r encoder =
     \<lparr>stage_upper_limit_um = (\<lambda>_. None)(0 := Some (if r then - 12700 else 12700)),
      stage_lower_limit_um = (\<lambda>_. None)(0 := Some (if r then 12700 else - 12700)),
      stage_lowest_scan_point_um = PerChannel ((\<lambda>_. None)(0 := Some (if r then 12700 else - 12700))),
      stage_highest_scan_point_um = PerChannel ((\<lambda>_. None)(0 := Some (if r then - 12700 else 12700))),
      stage_retract_point_um =
        PerChannel ((\<lambda>_. None)(0 := Some (if r then - 12700 + 2116667 / 10000000
                                          else 12700 - 2116667 / 10000000))),
      stage_conversion_um = (\<lambda>_. None)(0 := Some (2116667 / 10000000)),
      current_encoder_value = (\<lambda>_. None)(0 := Some encoder),
      pending_encoder_value = (\<lambda>_. None)\<rparr>"

text \<open>
  The same with a second stage on channel 2, neither axis reversed; the device
  reported \<open>e0\<close> for channel 1 and \<open>e1\<close> for channel 2.
\<close>

definition two_stage_config :: config where
  "two_stage_config =
     \<lparr>stages = (\<lambda>_. None)(0 := Some ''ZFM2020'', 1 := Some ''ZFM2020''), reverse = (\<lambda>_. False),
      channels = [1, 2, 3], verbose = False, very_verbose = False\<rparr>"

definition two_stage_controller :: "int \<Rightarrow> int \<Rightarrow> controller" where
  "two_stage_controller e0 e1 =
     \<lparr>stage_upper_limit_um = (\<lambda>_. None)(0 := Some 12700, 1 := Some 12700),
      stage_lower_limit_um = (\<lambda>_. None)(0 := Some (- 12700), 1 := Some (- 12700)),
      stage_lowest_scan_point_um = PerChannel ((\<lambda>_. None)(0 := Some (- 12700), 1 := Some (- 12700))),
      stage_highest_scan_point_um = PerChannel ((\<lambda>_. None)(0 := Some 12700, 1 := Some 12700)),
      stage_retract_point_um =
        PerChannel ((\<lambda>_. None)(0 := Some (12700 - 2116667 / 10000000),
                                1 := Some (12700 - 2116667 / 10000000))),
      stage_conversion_um = (\<lambda>_. None)(0 := Some (2116667 / 10000000), 1 := Some (2116667 / 10000000)),
      current_encoder_value = (\<lambda>_. None)(0 := Some e0, 1 := Some e1),
      pending_encoder_value = (\<lambda>_. None)\<rparr>"

section \<open>Notions of the specification\<close>

text \<open>
  ``The current (or pending) encoder value'': the value \<^verbatim>\<open>legalize_move_um\<close> adds a
  relative request to and \<^verbatim>\<open>_check_min_motion\<close> compares the target with. Both test
  the pending value for truth, so a pending target of 0 counts as none.
\<close>

definition reference_encoder :: "controller \<Rightarrow> nat \<Rightarrow> int option" where
  "reference_encoder st i =
     (if truthy_int (pending_encoder_value st i) then pending_encoder_value st i
      else current_encoder_value st i)"

text \<open>
  The signed distance, in encoder counts, from that value to the target of a request;
  \<open>None\<close> where the request has no target.
\<close>

definition guard_delta :: "config \<Rightarrow> controller \<Rightarrow> int \<Rightarrow> real \<Rightarrow> bool \<Rightarrow> int option" where
  "guard_delta cfg st channel um relative =
     (case internal_channels_dict cfg channel of
        None \<Rightarrow> None
      | Some i \<Rightarrow>
          (case encoder_value_from_um cfg st channel um of
             Inl e \<Rightarrow> None
           | Inr requested \<Rightarrow>
               (case reference_encoder st i of
                  None \<Rightarrow> None
                | Some reference \<Rightarrow>
                    Some ((if relative then requested + reference else requested) - reference))))"

section \<open>The conversions in binary64 arithmetic\<close>

text \<open>
  A Python float is an IEEE 754 binary64 number. The two conversion functions perform
  one float operation each, \<^verbatim>\<open>encoder_value * conversion\<close> and \<^verbatim>\<open>um / conversion\<close>, and
  the result of each is the exact product or quotient rounded to the nearest binary64
  number, ties to the even significand. This section embeds the two functions with that
  rounding. A finite float is given by its value, a real number; the real 0 is the
  positive zero.

  \<open>pow2 e\<close> is \<open>2\<close> to the power \<open>e\<close>; \<open>round_half_even\<close> rounds a real to the nearest
  integer, a tie to the even one; \<open>binade n a\<close> is the exponent \<open>e\<close> with
  \<open>pow2 e \<le> a < pow2 (e + 1)\<close>, found by halving or doubling \<open>a\<close> at most \<open>n\<close> times.
\<close>

definition pow2 :: "int \<Rightarrow> real" where
  "pow2 e = (if 0 \<le> e then 2 ^ nat e else 1 / 2 ^ nat (- e))"

definition round_half_even :: "real \<Rightarrow> int" where
  "round_half_even x =
     (let f = \<lfloor>x\<rfloor> in
      if x - of_int f < 1 / 2 then f
      else if 1 / 2 < x - of_int f then f + 1
      else if even f then f else f + 1)"

fun binade :: "nat \<Rightarrow> real \<Rightarrow> int" where
  "binade 0 a = 0"
| "binade (Suc n) a =
     (if 2 \<le> a then binade n (a / 2) + 1
      else if a < 1 then binade n (a * 2) - 1
      else 0)"

text \<open>
  The result of a float operation: a finite value, the negative zero, or an infinity
  (\<open>Infinity True\<close> the negative one). NaN does not arise in the two functions: their
  operands are finite and the divisor is not zero.
\<close>

datatype double = Finite real | MinusZero | Infinity bool

text \<open>
  Rounding of a magnitude \<open>a\<close>. A normal number has 53 significant bits, so in the
  binade of exponent \<open>e\<close> the floats are the multiples of \<open>pow2 (e - 52)\<close>; below
  \<open>pow2 (- 1022)\<close> the
  subnormal numbers keep the spacing \<open>pow2 (- 1074)\<close>. A rounded magnitude of \<open>pow2 1024\<close> or more
  is an infinity, and a negative value that rounds to zero is the negative zero.
\<close>

definition binary64_exponent :: "real \<Rightarrow> int" where
  "binary64_exponent a = (if a < pow2 (- 1022) then - 1022 else binade 1024 a)"

definition round_significand :: "int \<Rightarrow> real \<Rightarrow> real" where
  "round_significand e a = of_int (round_half_even (a / pow2 (e - 52))) * pow2 (e - 52)"

definition signed_result :: "bool \<Rightarrow> real \<Rightarrow> double" where
  "signed_result negative r =
     (if pow2 1024 \<le> r then Infinity negative
      else if negative then (if r = 0 then MinusZero else Finite (- r))
      else Finite r)"

definition round_binary64 :: "real \<Rightarrow> double" where
  "round_binary64 x = signed_result (x < 0) (round_significand (binary64_exponent \<bar>x\<bar>) \<bar>x\<bar>)"

text \<open>
  The operations of the two functions. \<^verbatim>\<open>encoder_value * conversion\<close> multiplies an
  \<^verbatim>\<open>int\<close> by a float: Python first converts the \<^verbatim>\<open>int\<close> to the nearest float and raises
  \<^verbatim>\<open>OverflowError\<close> when it is too large (\<open>double_of_int\<close>; an integer never rounds to
  the negative zero). A product or quotient that is exactly zero has the sign of its
  operands. \<^verbatim>\<open>-um\<close> flips the sign, also of a zero; \<^verbatim>\<open>um + 0\<close> turns the negative zero
  into the positive one and changes nothing else; \<^verbatim>\<open>int(x)\<close> truncates toward zero and
  raises \<^verbatim>\<open>OverflowError\<close> on an infinity.
\<close>

definition double_of_int :: "int \<Rightarrow> error + real" where
  "double_of_int n =
     (case round_binary64 (of_int n) of
        Finite r \<Rightarrow> Inr r
      | MinusZero \<Rightarrow> Inr 0
      | Infinity _ \<Rightarrow> Inl OverflowError)"

definition finite_mul :: "real \<Rightarrow> real \<Rightarrow> double" where
  "finite_mul x y =
     (if x * y = 0 then (if x < 0 \<or> y < 0 then MinusZero else Finite 0)
      else round_binary64 (x * y))"

definition finite_div :: "real \<Rightarrow> real \<Rightarrow> double" where
  "finite_div x y =
     (if x = 0 then (if y < 0 then MinusZero else Finite 0)
      else round_binary64 (x / y))"

fun double_neg :: "double \<Rightarrow> double" where
  "double_neg (Finite r) = (if r = 0 then MinusZero else Finite (- r))"
| "double_neg MinusZero = Finite 0"
| "double_neg (Infinity s) = Infinity (\<not> s)"

fun double_add_zero :: "double \<Rightarrow> double" where
  "double_add_zero MinusZero = Finite 0"
| "double_add_zero x = x"

fun int_of_double :: "double \<Rightarrow> error + int" where
  "int_of_double (Finite r) = Inr (py_int r)"
| "int_of_double MinusZero = Inr 0"
| "int_of_double (Infinity s) = Inl OverflowError"

fun is_finite :: "double \<Rightarrow> bool" where
  "is_finite (Infinity s) = False"
| "is_finite x = True"

fun double_value :: "double \<Rightarrow> real" where
  "double_value (Finite r) = r"
| "double_value x = 0"

text \<open>\<^verbatim>\<open>_um_from_encoder_value\<close> and \<^verbatim>\<open>_encoder_value_from_um\<close>, statement by statement.\<close>

definition um_from_encoder_value_binary64 :: "config \<Rightarrow> controller \<Rightarrow> int \<Rightarrow> int \<Rightarrow> error + double" where
  "um_from_encoder_value_binary64 cfg st channel encoder_value =
     (case internal_channels_dict cfg channel of
        None \<Rightarrow> Inl KeyError
      | Some i \<Rightarrow>
          (case stage_conversion_um st i of
             None \<Rightarrow> Inl TypeError
           | Some conv \<Rightarrow>
               (case double_of_int encoder_value of
                  Inl e \<Rightarrow> Inl e
                | Inr x \<Rightarrow>
                    (let um = finite_mul x conv;
                         um = (if reverse cfg i then double_neg um else um)
                     in Inr (double_add_zero um)))))"

definition encoder_value_from_um_binary64 :: "config \<Rightarrow> controller \<Rightarrow> int \<Rightarrow> real \<Rightarrow> error + int" where
  "encoder_value_from_um_binary64 cfg st channel um =
     (case internal_channels_dict cfg channel of
        None \<Rightarrow> Inl KeyError
      | Some i \<Rightarrow>
          (case stage_conversion_um st i of
             None \<Rightarrow> Inl TypeError
           | Some conv \<Rightarrow>
               if conv = 0 then Inl ZeroDivisionError
               else
                 (case int_of_double (finite_div um conv) of
                    Inl e \<Rightarrow> Inl e
                  | Inr encoder_value \<Rightarrow>
                      (let encoder_value = (if reverse cfg i then - encoder_value else encoder_value)
                       in Inr (encoder_value + 0)))))"

text \<open>
  The controller with one ZFM2020 stage, at encoder value 0, whose conversion factor is
  the float that Python reads from the literal \<^verbatim>\<open>0.2116667\<close> of \<^verbatim>\<open>supported_stages\<close>:
  \<open>7626096569973941 / 2 ^ 55\<close>.
\<close>

definition zfm2020_controller :: "bool \<Rightarrow> controller" where
  "zfm2020_controller r =
     (one_stage_controller r 0)\<lparr>stage_conversion_um :=
        (\<lambda>_. None)(0 := Some (7626096569973941 / 36028797018963968))\<rparr>"

section \<open>Facts about the conversions and the wire format\<close>

lemma py_int_eq: "py_int x = trunc_toward_zero x"
  unfolding py_int_def trunc_toward_zero_def
  by (auto simp: ceiling_def)

lemma truncation_error:
  assumes c: "0 < c"
  shows "\<bar>of_int (py_int (v / c)) * c - v\<bar> < c"
proof -
  have "\<bar>of_int (py_int (v / c)) - v / c\<bar> < 1"
    unfolding py_int_def by (auto; linarith)
  then have "\<bar>of_int (py_int (v / c)) - v / c\<bar> * c < 1 * c"
    using c by (simp only: mult_strict_right_mono)
  moreover have "(of_int (py_int (v / c)) - v / c) * c = of_int (py_int (v / c)) * c - v"
    using c by (simp add: field_simps)
  then have "\<bar>of_int (py_int (v / c)) - v / c\<bar> * c = \<bar>of_int (py_int (v / c)) * c - v\<bar>"
    using c by (metis abs_mult abs_of_pos)
  ultimately show ?thesis by simp
qed

text \<open>
  Without the final \<^verbatim>\<open>um + 0\<close> a reversed axis at encoder value 0 would report a
  negative zero.
\<close>

lemma negative_zero_without_normalisation:
  "0 < conv \<Longrightarrow> fneg (fmul (Float (of_int 0)) (Float conv)) = NegZero"
  by (simp add: fmul_def)

lemma um_from_encoder_value_bound:
  assumes "internal_channels_dict cfg channel = Some i"
    and "stage_conversion_um st i = Some conv"
  shows "\<exists>um. um_from_encoder_value cfg st channel encoder = Inr um \<and> um \<noteq> NegZero
           \<and> fval um = spec_um_from_encoder conv (reverse cfg i) encoder"
  using assms
  by (auto simp: um_from_encoder_value_def spec_um_from_encoder_def fmul_def fadd_def Let_def)

lemma encoder_value_from_um_bound:
  assumes "internal_channels_dict cfg channel = Some i"
    and "stage_conversion_um st i = Some conv" and "conv \<noteq> 0"
  shows "encoder_value_from_um cfg st channel v = Inr (spec_encoder_from_um conv (reverse cfg i) v)"
  using assms
  by (simp add: encoder_value_from_um_def spec_encoder_from_um_def py_int_eq Let_def)

lemma one_stage_config_simps:
  "channels (one_stage_config r) = [1, 2, 3]"
  "stages (one_stage_config r) 0 = Some ''ZFM2020''"
  "reverse (one_stage_config r) 0 = r"
  "verbose (one_stage_config r) = False"
  "internal_channels_dict (one_stage_config r) 1 = Some 0"
  by (simp_all add: one_stage_config_def internal_channels_dict_def)

lemma one_stage_controller_simps:
  "stage_upper_limit_um (one_stage_controller r e) 0 = Some (if r then - 12700 else 12700)"
  "stage_lower_limit_um (one_stage_controller r e) 0 = Some (if r then 12700 else - 12700)"
  "stage_lowest_scan_point_um (one_stage_controller r e) =
     PerChannel ((\<lambda>_. None)(0 := Some (if r then 12700 else - 12700)))"
  "stage_highest_scan_point_um (one_stage_controller r e) =
     PerChannel ((\<lambda>_. None)(0 := Some (if r then - 12700 else 12700)))"
  "stage_conversion_um (one_stage_controller r e) 0 = Some (2116667 / 10000000)"
  "current_encoder_value (one_stage_controller r e) 0 = Some e"
  "pending_encoder_value (one_stage_controller r e) = (\<lambda>_. None)"
  by (simp_all add: one_stage_controller_def)

section \<open>Unit conversion and its round trip\<close>

text \<open>
  In exact real arithmetic, on a bound axis (conversion factor \<open>conv > 0\<close>),
  \<open>um_from_encoder_value\<close> returns \<open>encoder * conv\<close>, negated when the axis is reversed,
  and never a negative zero; \<open>encoder_value_from_um\<close> returns \<open>um / conv\<close> truncated
  toward zero, negated when the axis is reversed; and converting a um value to an
  encoder value and back differs from the value by at most one conversion step.
  The program computes with floats, and there the last bound is exceeded: see below.
\<close>

lemma exact_conversion_round_trip:
  assumes "internal_channels_dict cfg channel = Some i"
    and "stage_conversion_um st i = Some conv"
    and "0 < conv"
  shows "(\<exists>um. um_from_encoder_value cfg st channel encoder = Inr um \<and> um \<noteq> NegZero
            \<and> fval um = spec_um_from_encoder conv (reverse cfg i) encoder)
       \<and> encoder_value_from_um cfg st channel v = Inr (spec_encoder_from_um conv (reverse cfg i) v)
       \<and> (\<exists>e um. encoder_value_from_um cfg st channel v = Inr e
            \<and> um_from_encoder_value cfg st channel e = Inr um \<and> \<bar>fval um - v\<bar> \<le> conv)"
proof -
  let ?e = "spec_encoder_from_um conv (reverse cfg i) v"
  have enc: "encoder_value_from_um cfg st channel v = Inr ?e"
    using assms by (simp add: encoder_value_from_um_bound)
  obtain um where um: "um_from_encoder_value cfg st channel ?e = Inr um"
      "fval um = spec_um_from_encoder conv (reverse cfg i) ?e"
    using um_from_encoder_value_bound[OF assms(1,2)] by blast
  have "spec_um_from_encoder conv (reverse cfg i) ?e = of_int (py_int (v / conv)) * conv"
    by (simp add: spec_um_from_encoder_def spec_encoder_from_um_def py_int_eq)
  then have "\<bar>fval um - v\<bar> < conv"
    using um(2) truncation_error[OF assms(3), of v] by simp
  then have "\<bar>fval um - v\<bar> \<le> conv" by simp
  with enc um(1) um_from_encoder_value_bound[OF assms(1,2)] show ?thesis by blast
qed

subsection \<open>Rounding to binary64\<close>

text \<open>
  Powers of two, the two rounding steps, and the error of \<open>round_binary64\<close>: a value of
  magnitude at most \<open>pow2 1023\<close> rounds to a finite float, and the rounding error is at
  most the fraction \<open>1 / 2 ^ 53\<close> of the magnitude, or of \<open>pow2 (- 1022)\<close> in the
  subnormal range.
\<close>

lemma pow2_power_int: "pow2 e = power_int 2 e"
  by (simp add: pow2_def power_int_def field_simps)

lemma pow2_pos: "0 < pow2 e"
  by (simp add: pow2_def)

lemma pow2_add: "pow2 (a + b) = pow2 a * pow2 b"
  by (simp add: pow2_power_int power_int_add)

lemma pow2_diff: "pow2 (a - b) = pow2 a / pow2 b"
  by (simp add: pow2_power_int power_int_diff)

lemma pow2_mono: "a \<le> b \<Longrightarrow> pow2 a \<le> pow2 b"
  by (simp add: pow2_power_int power_int_increasing)

lemma pow2_0: "pow2 0 = 1"
  by (simp add: pow2_def)

lemma pow2_1: "pow2 1 = 2"
  by (simp add: pow2_def)

lemma round_half_even_error: "\<bar>of_int (round_half_even x) - x\<bar> \<le> 1 / 2"
  unfolding round_half_even_def Let_def by (auto; linarith)

lemma round_half_even_nonneg: "0 \<le> x \<Longrightarrow> 0 \<le> round_half_even x"
  unfolding round_half_even_def Let_def by (auto; linarith)

lemma binade_bounds:
  "pow2 (- int n) \<le> a \<Longrightarrow> a < pow2 (int n + 1) \<Longrightarrow>
     pow2 (binade n a) \<le> a \<and> a < pow2 (binade n a + 1)"
proof (induction n arbitrary: a)
  case 0
  then show ?case by (simp add: pow2_0 pow2_1)
next
  case (Suc n)
  show ?case
  proof (cases "2 \<le> a")
    case True
    have "pow2 (- int n) \<le> pow2 0" by (rule pow2_mono) simp
    then have lo: "pow2 (- int n) \<le> a / 2" using True by (simp add: pow2_0)
    have "pow2 (int (Suc n) + 1) = pow2 (int n + 1) * 2"
      using pow2_add[of "int n + 1" 1] by (simp add: pow2_1 add.commute)
    then have hi: "a / 2 < pow2 (int n + 1)" using Suc.prems(2) by simp
    from Suc.IH[OF lo hi] have "pow2 (binade n (a / 2)) \<le> a / 2"
      "a / 2 < pow2 (binade n (a / 2) + 1)" by simp_all
    moreover have "pow2 (binade n (a / 2) + 1) = pow2 (binade n (a / 2)) * 2"
      using pow2_add[of "binade n (a / 2)" 1] by (simp add: pow2_1)
    moreover have "pow2 (binade n (a / 2) + 1 + 1) = pow2 (binade n (a / 2) + 1) * 2"
      using pow2_add[of "binade n (a / 2) + 1" 1] by (simp add: pow2_1)
    ultimately show ?thesis using True by simp
  next
    case False
    show ?thesis
    proof (cases "a < 1")
      case True
      have "pow2 (- int n) = pow2 (- int (Suc n)) * 2"
        using pow2_add[of "- int (Suc n)" 1] by (simp add: pow2_1)
      then have lo: "pow2 (- int n) \<le> a * 2" using Suc.prems(1) by simp
      have "pow2 1 \<le> pow2 (int n + 1)" by (rule pow2_mono) simp
      then have hi: "a * 2 < pow2 (int n + 1)" using True by (simp add: pow2_1)
      from Suc.IH[OF lo hi] have "pow2 (binade n (a * 2)) \<le> a * 2"
        "a * 2 < pow2 (binade n (a * 2) + 1)" by simp_all
      moreover have "pow2 (binade n (a * 2)) = pow2 (binade n (a * 2) - 1) * 2"
        using pow2_add[of "binade n (a * 2) - 1" 1] by (simp add: pow2_1)
      moreover have "pow2 (binade n (a * 2) + 1) = pow2 (binade n (a * 2)) * 2"
        using pow2_add[of "binade n (a * 2)" 1] by (simp add: pow2_1)
      ultimately show ?thesis using True \<open>\<not> 2 \<le> a\<close> by simp
    next
      case notless: False
      then show ?thesis using False by (simp add: pow2_0 pow2_1)
    qed
  qed
qed

lemma pow2_52: "pow2 52 = 4503599627370496"
  by (simp add: pow2_def)

lemma pow2_tiny_le: "pow2 (- 1022) \<le> pow2 1023"
  by (rule pow2_mono) simp

lemma round_significand_error:
  assumes "0 \<le> a" and "a \<le> pow2 1023"
  shows "0 \<le> round_significand (binary64_exponent a) a
       \<and> \<bar>round_significand (binary64_exponent a) a - a\<bar> \<le> (a + pow2 (- 1022)) / 2 ^ 53"
proof -
  let ?e = "binary64_exponent a"
  let ?ulp = "pow2 (?e - 52)"
  let ?m = "round_half_even (a / ?ulp)"
  have ulp_pos: "0 < ?ulp" by (rule pow2_pos)
  have "0 \<le> a / ?ulp" using assms(1) ulp_pos by simp
  then have "0 \<le> ?m" by (rule round_half_even_nonneg)
  then have nonneg: "0 \<le> round_significand ?e a"
    using ulp_pos by (simp add: round_significand_def)
  have "\<bar>of_int ?m - a / ?ulp\<bar> * ?ulp \<le> 1 / 2 * ?ulp"
    using round_half_even_error[of "a / ?ulp"] ulp_pos by (intro mult_right_mono) simp_all
  moreover have "(of_int ?m - a / ?ulp) * ?ulp = of_int ?m * ?ulp - a"
    using ulp_pos by (simp add: field_simps)
  then have "\<bar>of_int ?m - a / ?ulp\<bar> * ?ulp = \<bar>of_int ?m * ?ulp - a\<bar>"
    using ulp_pos by (metis abs_mult abs_of_pos)
  ultimately have err: "\<bar>round_significand ?e a - a\<bar> \<le> ?ulp / 2"
    by (simp add: round_significand_def)
  have ulp: "?ulp = pow2 ?e / 4503599627370496"
    using pow2_diff[of ?e 52] by (simp add: pow2_52)
  have "pow2 ?e \<le> a + pow2 (- 1022)"
  proof (cases "a < pow2 (- 1022)")
    case True
    then show ?thesis using assms(1) by (simp add: binary64_exponent_def)
  next
    case False
    have "pow2 (- int 1024) \<le> pow2 (- 1022)" by (rule pow2_mono) simp
    then have lo: "pow2 (- int 1024) \<le> a" using False by simp
    have "pow2 1023 < pow2 (int 1024 + 1)"
      using pow2_add[of 1023 2] pow2_pos[of 1023] by (simp add: pow2_def[of 2])
    then have hi: "a < pow2 (int 1024 + 1)" using assms(2) by simp
    from binade_bounds[OF lo hi] have "pow2 (binade 1024 a) \<le> a" by simp
    then show ?thesis using False pow2_pos[of "- 1022"] by (simp add: binary64_exponent_def)
  qed
  then have "?ulp / 2 \<le> (a + pow2 (- 1022)) / 2 ^ 53"
    unfolding ulp by simp
  with err nonneg show ?thesis by simp
qed

lemma round_binary64_finite:
  assumes "\<bar>x\<bar> \<le> pow2 1023"
  shows "is_finite (round_binary64 x)
       \<and> \<bar>double_value (round_binary64 x) - x\<bar> \<le> (\<bar>x\<bar> + pow2 (- 1022)) / 2 ^ 53"
proof -
  let ?r = "round_significand (binary64_exponent \<bar>x\<bar>) \<bar>x\<bar>"
  have r: "0 \<le> ?r" "\<bar>?r - \<bar>x\<bar>\<bar> \<le> (\<bar>x\<bar> + pow2 (- 1022)) / 2 ^ 53"
    using round_significand_error[of "\<bar>x\<bar>"] assms by simp_all
  have "(\<bar>x\<bar> + pow2 (- 1022)) / 2 ^ 53 \<le> (pow2 1023 + pow2 1023) / 2 ^ 53"
    using assms pow2_tiny_le by (intro divide_right_mono) simp_all
  moreover have "pow2 1024 = pow2 1023 * 2"
    using pow2_add[of 1023 1] by (simp add: pow2_1)
  moreover have "?r - \<bar>x\<bar> \<le> (\<bar>x\<bar> + pow2 (- 1022)) / 2 ^ 53"
    by (rule order_trans[OF abs_ge_self r(2)])
  moreover have "(pow2 1023 + pow2 1023) / 2 ^ 53 < pow2 1023"
    using pow2_pos[of 1023] by simp
  ultimately have small: "?r < pow2 1024"
    using assms by linarith
  show ?thesis
  proof (cases "x < 0")
    case True
    have "round_binary64 x = (if ?r = 0 then MinusZero else Finite (- ?r))"
      using small True by (simp add: round_binary64_def signed_result_def)
    then have "is_finite (round_binary64 x) \<and> double_value (round_binary64 x) = - ?r"
      by simp
    moreover have "\<bar>- ?r - x\<bar> = \<bar>?r - \<bar>x\<bar>\<bar>"
      using True by (simp add: abs_if)
    ultimately show ?thesis using r(2) by (simp only:)
  next
    case False
    have "round_binary64 x = Finite ?r"
      using small False by (simp add: round_binary64_def signed_result_def)
    then have "is_finite (round_binary64 x) \<and> double_value (round_binary64 x) = ?r"
      by simp
    moreover have "\<bar>?r - x\<bar> = \<bar>?r - \<bar>x\<bar>\<bar>"
      using False by simp
    ultimately show ?thesis using r(2) by (simp only:)
  qed
qed

lemma py_int_error: "\<bar>of_int (py_int x) - x\<bar> < 1"
  unfolding py_int_def by (auto; linarith)

lemma py_int_magnitude: "\<bar>real_of_int (py_int x)\<bar> \<le> \<bar>x\<bar>"
  unfolding py_int_def by (auto; linarith)

lemma int_of_double_finite: "is_finite d \<Longrightarrow> int_of_double d = Inr (py_int (double_value d))"
  by (cases d) (simp_all add: py_int_def)

lemma double_add_zero_finite: "is_finite d \<Longrightarrow> double_add_zero d = Finite (double_value d)"
  by (cases d) simp_all

lemma double_add_zero_neg: "is_finite d \<Longrightarrow> double_add_zero (double_neg d) = Finite (- double_value d)"
  by (cases d) simp_all

lemma pow2_double: "pow2 (e + 1) = 2 * pow2 e"
  using pow2_add[of e 1] by (simp add: pow2_1)

lemma finite_div_error:
  assumes "0 < y" and "\<bar>x / y\<bar> \<le> pow2 1023"
  shows "is_finite (finite_div x y)
       \<and> \<bar>double_value (finite_div x y) - x / y\<bar> \<le> (\<bar>x / y\<bar> + pow2 (- 1022)) / 2 ^ 53"
proof (cases "x = 0")
  case True
  then show ?thesis using assms(1) pow2_pos[of "- 1022"] by (simp add: finite_div_def)
next
  case False
  then show ?thesis using round_binary64_finite[OF assms(2)] by (simp add: finite_div_def)
qed

lemma finite_mul_error:
  assumes "\<bar>x * y\<bar> \<le> pow2 1023"
  shows "is_finite (finite_mul x y)
       \<and> \<bar>double_value (finite_mul x y) - x * y\<bar> \<le> (\<bar>x * y\<bar> + pow2 (- 1022)) / 2 ^ 53"
proof (cases "x * y = 0")
  case True
  then have "is_finite (finite_mul x y) \<and> double_value (finite_mul x y) = 0"
    by (simp add: finite_mul_def)
  moreover have "\<bar>0 - x * y\<bar> \<le> (\<bar>x * y\<bar> + pow2 (- 1022)) / 2 ^ 53"
    unfolding True using pow2_pos[of "- 1022"] by simp
  ultimately show ?thesis by (simp only:)
next
  case False
  then show ?thesis using round_binary64_finite[OF assms] by (simp add: finite_mul_def)
qed

lemma double_of_int_error:
  assumes "\<bar>real_of_int n\<bar> \<le> pow2 1023"
  shows "\<exists>f. double_of_int n = Inr f
           \<and> \<bar>f - of_int n\<bar> \<le> (\<bar>of_int n\<bar> + pow2 (- 1022)) / 2 ^ 53"
  using round_binary64_finite[OF assms]
  by (cases "round_binary64 (of_int n)") (simp_all add: double_of_int_def)

text \<open>Evaluation of the rounding on concrete values.\<close>

lemma binade_unfold:
  "0 < n \<Longrightarrow> binade n a =
     (if 2 \<le> a then binade (n - 1) (a / 2) + 1
      else if a < 1 then binade (n - 1) (a * 2) - 1
      else 0)"
  by (cases n) simp_all

lemmas binary64_run = round_binary64_def signed_result_def round_significand_def
  binary64_exponent_def round_half_even_def pow2_def binade_unfold
  finite_mul_def finite_div_def double_of_int_def py_int_def

lemma zfm2020_controller_simps:
  "stage_conversion_um (zfm2020_controller r) 0 = Some (7626096569973941 / 36028797018963968)"
  by (simp add: zfm2020_controller_def)

subsection \<open>The error of the two conversions\<close>

lemma um_from_encoder_value_binary64_error:
  assumes i: "internal_channels_dict cfg channel = Some i"
    and c: "stage_conversion_um st i = Some conv"
    and lo: "pow2 (- 1022) \<le> conv"
    and hi: "conv \<le> pow2 1022"
    and e1: "\<bar>real_of_int e\<bar> \<le> pow2 1022"
    and e2: "\<bar>real_of_int e\<bar> * conv \<le> pow2 1022"
  shows "\<exists>um. um_from_encoder_value_binary64 cfg st channel e = Inr (Finite um)
           \<and> \<bar>um - spec_um_from_encoder conv (reverse cfg i) e\<bar>
               \<le> (\<bar>of_int e\<bar> * conv + conv) * (2 + 1 / 2 ^ 53) / 2 ^ 53"
proof -
  define T where "T = pow2 (- 1022)"
  define N where "N = \<bar>real_of_int e\<bar> * conv"
  define P where "P = pow2 1022"
  have Tpos: "0 < T" unfolding T_def by (rule pow2_pos)
  have cpos: "0 < conv" using lo Tpos unfolding T_def by simp
  have "pow2 (- 1022) \<le> pow2 0" by (rule pow2_mono) simp
  then have T1: "T \<le> 1" unfolding T_def by (simp add: pow2_0)
  define TC where "TC = T * conv"
  have Tc: "TC \<le> conv" unfolding TC_def using T1 cpos by simp
  have Tc0: "0 \<le> TC" unfolding TC_def using Tpos cpos by simp
  have N0: "0 \<le> N" unfolding N_def using cpos by simp
  have P2: "pow2 1023 = 2 * P" unfolding P_def using pow2_double[of 1022] by simp
  have Ppos: "0 < P" unfolding P_def by (rule pow2_pos)
  have "\<bar>real_of_int e\<bar> \<le> pow2 1023" using e1 P2 Ppos unfolding P_def by simp
  from double_of_int_error[OF this] obtain f where
    f: "double_of_int e = Inr f"
    and ferr: "\<bar>f - of_int e\<bar> \<le> (\<bar>of_int e\<bar> + T) / 2 ^ 53"
    unfolding T_def by blast
  define FC where "FC = \<bar>f * conv\<bar>"
  define D1 where "D1 = \<bar>f * conv - of_int e * conv\<bar>"
  have "\<bar>f - of_int e\<bar> * conv \<le> (\<bar>of_int e\<bar> + T) / 2 ^ 53 * conv"
    using ferr cpos by (intro mult_right_mono) simp_all
  moreover have "\<bar>f - of_int e\<bar> * conv = D1"
    unfolding D1_def using cpos by (simp add: abs_mult left_diff_distrib[symmetric])
  moreover have "(\<bar>of_int e\<bar> + T) / 2 ^ 53 * conv = (N + TC) / 2 ^ 53"
    unfolding N_def TC_def by (simp add: field_simps)
  ultimately have fc: "D1 \<le> (N + TC) / 2 ^ 53"
    by simp
  have "\<bar>real_of_int e * conv\<bar> = N"
    unfolding N_def using cpos by (simp add: abs_mult)
  then have "FC \<le> N + D1"
    unfolding FC_def D1_def by linarith
  then have pN: "FC \<le> N + (N + TC) / 2 ^ 53"
    using fc by linarith
  have NP: "N \<le> P" using e2 unfolding N_def P_def .
  have cP: "conv \<le> P" using hi unfolding P_def .
  have "(N + TC) / 2 ^ 53 \<le> (P + P) / 2 ^ 53"
    using NP cP Tc by (intro divide_right_mono) simp_all
  moreover have "(P + P) / 2 ^ 53 \<le> P"
    using Ppos by simp
  ultimately have "FC \<le> 2 * P"
    using pN NP by linarith
  then have "\<bar>f * conv\<bar> \<le> pow2 1023"
    unfolding FC_def P2 .
  from finite_mul_error[OF this] have
    fin: "is_finite (finite_mul f conv)"
    and merr: "\<bar>double_value (finite_mul f conv) - f * conv\<bar> \<le> (FC + T) / 2 ^ 53"
    unfolding T_def FC_def by simp_all
  define um0 where "um0 = double_value (finite_mul f conv)"
  define D2 where "D2 = \<bar>um0 - f * conv\<bar>"
  have merr': "D2 \<le> (FC + T) / 2 ^ 53"
    using merr unfolding D2_def um0_def .
  have res: "um_from_encoder_value_binary64 cfg st channel e
      = Inr (Finite (if reverse cfg i then - um0 else um0))"
    using i c f fin
    by (simp add: um_from_encoder_value_binary64_def um0_def double_add_zero_finite
        double_add_zero_neg)
  have "\<bar>(if reverse cfg i then - um0 else um0) - spec_um_from_encoder conv (reverse cfg i) e\<bar>
      = \<bar>um0 - of_int e * conv\<bar>"
    using abs_minus_commute[of um0 "of_int e * conv"] by (simp add: spec_um_from_encoder_def)
  moreover have "\<bar>um0 - of_int e * conv\<bar>
      \<le> (N + conv) * (2 + 1 / 2 ^ 53) / 2 ^ 53"
  proof -
    have "\<bar>um0 - of_int e * conv\<bar> \<le> D2 + D1"
      unfolding D1_def D2_def by linarith
    moreover have "(N + TC) / 2 ^ 53 \<le> (N + conv) / 2 ^ 53"
      using Tc by (intro divide_right_mono) simp_all
    moreover have "(FC + T) / 2 ^ 53 \<le> (N + (N + conv) / 2 ^ 53 + conv) / 2 ^ 53"
    proof (intro divide_right_mono)
      have "T \<le> conv" using lo unfolding T_def .
      moreover have "(N + TC) / 2 ^ 53 \<le> (N + conv) / 2 ^ 53"
        using Tc by (intro divide_right_mono) simp_all
      ultimately show "FC + T \<le> N + (N + conv) / 2 ^ 53 + conv"
        using pN by linarith
    qed simp
    moreover have "(N + (N + conv) / 2 ^ 53 + conv) / 2 ^ 53 + (N + conv) / 2 ^ 53
          = (N + conv) * (2 + 1 / 2 ^ 53) / 2 ^ 53"
      by (simp add: field_simps)
    ultimately show ?thesis
      using merr' fc by linarith
  qed
  ultimately have final: "\<bar>(if reverse cfg i then - um0 else um0)
        - spec_um_from_encoder conv (reverse cfg i) e\<bar>
      \<le> (\<bar>of_int e\<bar> * conv + conv) * (2 + 1 / 2 ^ 53) / 2 ^ 53"
    unfolding N_def by (simp only:)
  show ?thesis
  proof (intro exI conjI)
    show "um_from_encoder_value_binary64 cfg st channel e
      = Inr (Finite (if reverse cfg i then - um0 else um0))" by (rule res)
    show "\<bar>(if reverse cfg i then - um0 else um0)
        - spec_um_from_encoder conv (reverse cfg i) e\<bar>
      \<le> (\<bar>of_int e\<bar> * conv + conv) * (2 + 1 / 2 ^ 53) / 2 ^ 53" by (rule final)
  qed
qed

lemma spec_um_from_encoder_flip:
  "spec_um_from_encoder conv r (if r then - n else n) = of_int n * conv"
  by (simp add: spec_um_from_encoder_def)

lemma round_trip_binary64_error:
  assumes i: "internal_channels_dict cfg channel = Some i"
    and c: "stage_conversion_um st i = Some conv"
    and lo: "pow2 (- 500) \<le> conv"
    and hi: "conv \<le> pow2 500"
    and v: "\<bar>v\<bar> \<le> pow2 500"
  shows "\<exists>n um. encoder_value_from_um_binary64 cfg st channel v
               = Inr (if reverse cfg i then - n else n)
           \<and> n = py_int (double_value (finite_div v conv))
           \<and> \<bar>double_value (finite_div v conv) - v / conv\<bar>
               \<le> (\<bar>v / conv\<bar> + pow2 (- 1022)) / 2 ^ 53
           \<and> um_from_encoder_value_binary64 cfg st channel (if reverse cfg i then - n else n)
               = Inr (Finite um)
           \<and> \<bar>um - v\<bar> < conv + (\<bar>v\<bar> + conv) / 2 ^ 51"
proof -
  define T where "T = pow2 (- 1022)"
  define R where "R = pow2 500"
  define A where "A = \<bar>v\<bar>"
  define y where "y = v / conv"
  define Y where "Y = \<bar>y\<bar>"
  define TC where "TC = T * conv"
  have Tpos: "0 < T" unfolding T_def by (rule pow2_pos)
  have "0 < pow2 (- 500)" by (rule pow2_pos)
  then have cpos: "0 < conv" using lo by simp
  have "pow2 (- 1022) \<le> pow2 (- 500)" by (rule pow2_mono) simp
  then have Tc: "T \<le> conv" unfolding T_def using lo by simp
  have "pow2 (- 1022) \<le> pow2 0" by (rule pow2_mono) simp
  then have T1: "T \<le> 1" unfolding T_def by (simp add: pow2_0)
  have TCc: "TC \<le> conv" unfolding TC_def using T1 cpos by simp
  have TC0: "0 \<le> TC" unfolding TC_def using Tpos cpos by simp
  have A0: "0 \<le> A" unfolding A_def by simp
  have AR: "A \<le> R" unfolding A_def R_def by (rule v)
  have cR: "conv \<le> R" unfolding R_def by (rule hi)
  have "pow2 0 \<le> pow2 500" by (rule pow2_mono) simp
  then have R1: "1 \<le> R" unfolding R_def by (simp add: pow2_0)
  have yc: "y * conv = v" unfolding y_def using cpos by simp
  have Yc: "Y * conv = A" unfolding Y_def A_def using yc cpos by (metis abs_mult abs_of_pos)
  have "A / conv \<le> pow2 500 / pow2 (- 500)"
    using A0 AR lo pow2_pos[of "- 500"] unfolding R_def by (intro frac_le) simp_all
  moreover have "pow2 500 / pow2 (- 500) = pow2 1000"
    using pow2_diff[of 500 "- 500"] by simp
  moreover have "Y = A / conv"
    unfolding Y_def y_def A_def using cpos by simp
  ultimately have YQ: "Y \<le> pow2 1000" by simp
  have Q1: "pow2 1000 \<le> pow2 1021" by (rule pow2_mono) simp
  have Q2: "pow2 1022 = 2 * pow2 1021" using pow2_double[of 1021] by simp
  have Q3: "pow2 1023 = 2 * pow2 1022" using pow2_double[of 1022] by simp
  have Q0: "0 < pow2 1021" by (rule pow2_pos)
  have R2: "R \<le> pow2 1021" unfolding R_def by (rule pow2_mono) simp
  have "\<bar>v / conv\<bar> \<le> pow2 1023"
    using YQ Q1 Q2 Q3 Q0 unfolding Y_def y_def by linarith
  from finite_div_error[OF cpos this]
  have fin: "is_finite (finite_div v conv)"
    and qerr: "\<bar>double_value (finite_div v conv) - y\<bar> \<le> (Y + T) / 2 ^ 53"
    unfolding y_def Y_def T_def by simp_all
  define qv where "qv = double_value (finite_div v conv)"
  define n where "n = py_int qv"
  define e where "e = (if reverse cfg i then - n else n)"
  define D4 where "D4 = \<bar>qv - y\<bar>"
  have D4b: "D4 \<le> (Y + T) / 2 ^ 53" unfolding D4_def qv_def by (rule qerr)
  have enc: "encoder_value_from_um_binary64 cfg st channel v = Inr e"
    using i c cpos fin
    by (simp add: encoder_value_from_um_binary64_def int_of_double_finite e_def n_def qv_def)
  define M where "M = \<bar>real_of_int n\<bar>"
  have "M \<le> \<bar>qv\<bar>" unfolding M_def n_def by (rule py_int_magnitude)
  moreover have "\<bar>qv\<bar> \<le> Y + D4" unfolding Y_def D4_def by linarith
  ultimately have MY: "M \<le> Y + D4" by linarith
  have "(Y + T) / 2 ^ 53 \<le> (pow2 1021 + pow2 1021) / 2 ^ 53"
    using YQ Q1 T1 R1 R2 by (intro divide_right_mono) simp_all
  moreover have "(pow2 1021 + pow2 1021) / 2 ^ 53 \<le> pow2 1021"
    using Q0 by simp
  ultimately have "M \<le> pow2 1022"
    using MY D4b YQ Q1 Q2 by linarith
  then have e1: "\<bar>real_of_int e\<bar> \<le> pow2 1022"
    unfolding M_def e_def by simp
  define N where "N = M * conv"
  have s1: "M * conv \<le> (Y + D4) * conv"
    using MY cpos by (intro mult_right_mono) simp_all
  have s2: "(Y + D4) * conv = A + D4 * conv"
    using Yc by (simp add: distrib_right)
  have s3: "D4 * conv \<le> (Y + T) / 2 ^ 53 * conv"
    using D4b cpos by (intro mult_right_mono) simp_all
  have s4: "(Y + T) / 2 ^ 53 * conv = (A + TC) / 2 ^ 53"
    using Yc unfolding TC_def by (simp add: distrib_right)
  have D4c: "D4 * conv \<le> (A + TC) / 2 ^ 53"
    using s3 unfolding s4 .
  have NA: "N \<le> A + (A + TC) / 2 ^ 53"
    unfolding N_def using s1 s2 D4c by linarith
  have TCA: "(A + TC) / 2 ^ 53 \<le> (A + conv) / 2 ^ 53"
    using TCc by (intro divide_right_mono) simp_all
  have "(A + conv) / 2 ^ 53 \<le> (pow2 1021 + pow2 1021) / 2 ^ 53"
    using AR cR R2 by (intro divide_right_mono) simp_all
  then have "N \<le> pow2 1022"
    using NA TCA AR R2 Q2 \<open>(pow2 1021 + pow2 1021) / 2 ^ 53 \<le> pow2 1021\<close> by linarith
  then have e2: "\<bar>real_of_int e\<bar> * conv \<le> pow2 1022"
    unfolding N_def M_def e_def by simp
  have lo': "pow2 (- 1022) \<le> conv" using Tc unfolding T_def .
  have hi': "conv \<le> pow2 1022" using cR R2 Q2 Q0 by linarith
  from um_from_encoder_value_binary64_error[OF i c lo' hi' e1 e2] obtain um where
    um: "um_from_encoder_value_binary64 cfg st channel e = Inr (Finite um)"
    and umerr: "\<bar>um - spec_um_from_encoder conv (reverse cfg i) e\<bar>
        \<le> (\<bar>of_int e\<bar> * conv + conv) * (2 + 1 / 2 ^ 53) / 2 ^ 53"
    by blast
  have "spec_um_from_encoder conv (reverse cfg i) e = of_int n * conv"
    unfolding e_def by (rule spec_um_from_encoder_flip)
  moreover have "\<bar>real_of_int e\<bar> * conv = N"
    unfolding N_def M_def e_def by simp
  ultimately have umerr': "\<bar>um - of_int n * conv\<bar> \<le> (N + conv) * (2 + 1 / 2 ^ 53) / 2 ^ 53"
    using umerr by simp
  define D3 where "D3 = \<bar>real_of_int n - qv\<bar>"
  have "D3 < 1" unfolding D3_def n_def by (rule py_int_error)
  then have D3c: "D3 * conv < conv" using cpos by simp
  have "\<bar>real_of_int n - y\<bar> \<le> D3 + D4" unfolding D3_def D4_def by linarith
  then have "\<bar>real_of_int n - y\<bar> * conv \<le> (D3 + D4) * conv"
    using cpos by (intro mult_right_mono) simp_all
  moreover have "\<bar>real_of_int n - y\<bar> * conv = \<bar>of_int n * conv - v\<bar>"
    using cpos yc by (metis abs_mult abs_of_pos left_diff_distrib)
  moreover have "(D3 + D4) * conv = D3 * conv + D4 * conv"
    by (simp add: distrib_right)
  ultimately have backward: "\<bar>of_int n * conv - v\<bar> < conv + (A + conv) / 2 ^ 53"
    using D3c D4c TCA by linarith
  define E where "E = A + conv"
  have E0: "0 \<le> E" unfolding E_def using A0 cpos by simp
  have "N + conv \<le> E + E / 2 ^ 53"
    using NA TCA unfolding E_def by linarith
  moreover have "E + E / 2 ^ 53 = E * (1 + 1 / 2 ^ 53)"
    by (simp add: distrib_left)
  ultimately have "N + conv \<le> E * (1 + 1 / 2 ^ 53)" by simp
  then have "(N + conv) * ((2 + 1 / 2 ^ 53) / 2 ^ 53)
      \<le> E * (1 + 1 / 2 ^ 53) * ((2 + 1 / 2 ^ 53) / 2 ^ 53)"
    by (intro mult_right_mono) simp_all
  then have forth: "\<bar>um - of_int n * conv\<bar>
      \<le> E * ((1 + 1 / 2 ^ 53) * ((2 + 1 / 2 ^ 53) / 2 ^ 53))"
    using umerr' by (simp add: mult.assoc)
  have "(1 + 1 / 2 ^ 53) * ((2 + 1 / 2 ^ 53) / 2 ^ 53) + 1 / 2 ^ 53 \<le> (1 :: real) / 2 ^ 51"
    by simp
  then have "E * ((1 + 1 / 2 ^ 53) * ((2 + 1 / 2 ^ 53) / 2 ^ 53) + 1 / 2 ^ 53) \<le> E * (1 / 2 ^ 51)"
    using E0 by (rule mult_left_mono)
  then have slack: "E * ((1 + 1 / 2 ^ 53) * ((2 + 1 / 2 ^ 53) / 2 ^ 53)) + E / 2 ^ 53 \<le> E / 2 ^ 51"
    by (simp add: distrib_left)
  have "\<bar>um - v\<bar> \<le> \<bar>um - of_int n * conv\<bar> + \<bar>of_int n * conv - v\<bar>"
    by linarith
  then have total: "\<bar>um - v\<bar> < conv + (\<bar>v\<bar> + conv) / 2 ^ 51"
    using forth backward slack unfolding E_def A_def by linarith
  show ?thesis
  proof (intro exI conjI)
    show "encoder_value_from_um_binary64 cfg st channel v
               = Inr (if reverse cfg i then - n else n)"
      using enc unfolding e_def .
    show "n = py_int (double_value (finite_div v conv))"
      unfolding n_def qv_def ..
    show "\<bar>double_value (finite_div v conv) - v / conv\<bar>
               \<le> (\<bar>v / conv\<bar> + pow2 (- 1022)) / 2 ^ 53"
      using qerr unfolding y_def Y_def T_def .
    show "um_from_encoder_value_binary64 cfg st channel (if reverse cfg i then - n else n)
               = Inr (Finite um)"
      using um unfolding e_def .
    show "\<bar>um - v\<bar> < conv + (\<bar>v\<bar> + conv) / 2 ^ 51" by (rule total)
  qed
qed

text \<open>
  Claim C7, as amended. On an axis whose conversion factor \<open>conv\<close> lies between
  \<open>pow2 (- 500)\<close> and \<open>pow2 500\<close>: for an encoder value of magnitude at most \<open>pow2 500\<close>,
  \<^verbatim>\<open>_um_from_encoder_value\<close> returns a finite float that is not the negative zero and
  lies within \<open>(\<bar>encoder\<bar> * conv + conv) / 2 ^ 51\<close> of \<open>encoder * conv\<close>, negated when the
  axis is reversed; for a um value \<open>v\<close> of magnitude at most \<open>pow2 500\<close>,
  \<^verbatim>\<open>_encoder_value_from_um\<close> returns the binary64 quotient \<open>v / conv\<close> truncated toward
  zero, negated when the axis is reversed, and converting \<open>v\<close> to an encoder value and
  back differs from \<open>v\<close> by less than one conversion step plus
  \<open>(\<bar>v\<bar> + conv) / 2 ^ 51\<close>.
\<close>

theorem conversion_round_trip_binary64:
  assumes "internal_channels_dict cfg channel = Some i"
    and "stage_conversion_um st i = Some conv"
    and "pow2 (- 500) \<le> conv"
    and "conv \<le> pow2 500"
  shows "(\<bar>real_of_int encoder\<bar> \<le> pow2 500 \<longrightarrow>
           (\<exists>um. um_from_encoder_value_binary64 cfg st channel encoder = Inr (Finite um)
               \<and> \<bar>um - spec_um_from_encoder conv (reverse cfg i) encoder\<bar>
                   \<le> (\<bar>of_int encoder\<bar> * conv + conv) / 2 ^ 51))
       \<and> (\<bar>v\<bar> \<le> pow2 500 \<longrightarrow>
           (\<exists>n um. encoder_value_from_um_binary64 cfg st channel v
                   = Inr (if reverse cfg i then - n else n)
               \<and> n = py_int (double_value (finite_div v conv))
               \<and> \<bar>double_value (finite_div v conv) - v / conv\<bar>
                   \<le> (\<bar>v / conv\<bar> + pow2 (- 1022)) / 2 ^ 53
               \<and> um_from_encoder_value_binary64 cfg st channel (if reverse cfg i then - n else n)
                   = Inr (Finite um)
               \<and> \<bar>um - v\<bar> < conv + (\<bar>v\<bar> + conv) / 2 ^ 51))"
proof (intro conjI impI)
  assume e: "\<bar>real_of_int encoder\<bar> \<le> pow2 500"
  define R where "R = pow2 500"
  have cpos: "0 < conv" using assms(3) pow2_pos[of "- 500"] by simp
  have "pow2 (- 1022) \<le> pow2 (- 500)" by (rule pow2_mono) simp
  then have lo: "pow2 (- 1022) \<le> conv" using assms(3) by simp
  have R2: "pow2 500 \<le> pow2 1022" by (rule pow2_mono) simp
  then have hi: "conv \<le> pow2 1022" using assms(4) by simp
  have e1: "\<bar>real_of_int encoder\<bar> \<le> pow2 1022" using e R2 by simp
  have "\<bar>real_of_int encoder\<bar> * conv \<le> pow2 500 * pow2 500"
    using e assms(4) cpos by (intro mult_mono) simp_all
  moreover have "pow2 500 * pow2 500 = pow2 1000"
    using pow2_add[of 500 500] by simp
  moreover have "pow2 1000 \<le> pow2 1022" by (rule pow2_mono) simp
  ultimately have e2: "\<bar>real_of_int encoder\<bar> * conv \<le> pow2 1022" by simp
  from um_from_encoder_value_binary64_error[OF assms(1,2) lo hi e1 e2] obtain um where
    um: "um_from_encoder_value_binary64 cfg st channel encoder = Inr (Finite um)"
    and err: "\<bar>um - spec_um_from_encoder conv (reverse cfg i) encoder\<bar>
        \<le> (\<bar>of_int encoder\<bar> * conv + conv) * (2 + 1 / 2 ^ 53) / 2 ^ 53"
    by blast
  define E where "E = \<bar>real_of_int encoder\<bar> * conv + conv"
  have E0: "0 \<le> E" unfolding E_def using cpos by simp
  have "(2 + 1 / 2 ^ 53) / 2 ^ 53 \<le> (1 :: real) / 2 ^ 51" by simp
  then have "E * ((2 + 1 / 2 ^ 53) / 2 ^ 53) \<le> E * (1 / 2 ^ 51)"
    using E0 by (rule mult_left_mono)
  then have "E * (2 + 1 / 2 ^ 53) / 2 ^ 53 \<le> E / 2 ^ 51" by simp
  then have "\<bar>um - spec_um_from_encoder conv (reverse cfg i) encoder\<bar>
      \<le> (\<bar>of_int encoder\<bar> * conv + conv) / 2 ^ 51"
    using err unfolding E_def by linarith
  with um show "\<exists>um. um_from_encoder_value_binary64 cfg st channel encoder = Inr (Finite um)
               \<and> \<bar>um - spec_um_from_encoder conv (reverse cfg i) encoder\<bar>
                   \<le> (\<bar>of_int encoder\<bar> * conv + conv) / 2 ^ 51"
    by blast
next
  assume "\<bar>v\<bar> \<le> pow2 500"
  from round_trip_binary64_error[OF assms this]
  show "\<exists>n um. encoder_value_from_um_binary64 cfg st channel v
                   = Inr (if reverse cfg i then - n else n)
               \<and> n = py_int (double_value (finite_div v conv))
               \<and> \<bar>double_value (finite_div v conv) - v / conv\<bar>
                   \<le> (\<bar>v / conv\<bar> + pow2 (- 1022)) / 2 ^ 53
               \<and> um_from_encoder_value_binary64 cfg st channel (if reverse cfg i then - n else n)
                   = Inr (Finite um)
               \<and> \<bar>um - v\<bar> < conv + (\<bar>v\<bar> + conv) / 2 ^ 51" .
qed

theorem conversion_round_trip_binary64_witness:
  "internal_channels_dict (one_stage_config True) 1 = Some 0
   \<and> stage_conversion_um (zfm2020_controller True) 0 = Some (7626096569973941 / 36028797018963968)
   \<and> pow2 (- 500) \<le> 7626096569973941 / 36028797018963968
   \<and> 7626096569973941 / 36028797018963968 \<le> pow2 500
   \<and> \<bar>real_of_int 9689\<bar> \<le> pow2 500
   \<and> \<bar>4510307358584441 / 2199023255552\<bar> \<le> pow2 500
   \<and> reverse (one_stage_config True) 0
   \<and> encoder_value_from_um_binary64 (one_stage_config True) (zfm2020_controller True) 1
        (4510307358584441 / 2199023255552) = Inr (- 9689)
   \<and> um_from_encoder_value_binary64 (one_stage_config True) (zfm2020_controller True) 1 (- 9689)
        = Inr (Finite (4509841898588715 / 2199023255552))
   \<and> (\<exists>um. um_from_encoder_value_binary64 (one_stage_config True) (zfm2020_controller True) 1 9689
              = Inr (Finite um)
          \<and> \<bar>um - spec_um_from_encoder (7626096569973941 / 36028797018963968)
                   (reverse (one_stage_config True) 0) 9689\<bar>
              \<le> (\<bar>of_int 9689\<bar> * (7626096569973941 / 36028797018963968)
                   + 7626096569973941 / 36028797018963968) / 2 ^ 51)
   \<and> (\<exists>n um. encoder_value_from_um_binary64 (one_stage_config True) (zfm2020_controller True) 1
                (4510307358584441 / 2199023255552)
              = Inr (if reverse (one_stage_config True) 0 then - n else n)
          \<and> n = py_int (double_value (finite_div (4510307358584441 / 2199023255552)
                                        (7626096569973941 / 36028797018963968)))
          \<and> \<bar>double_value (finite_div (4510307358584441 / 2199023255552)
                                (7626096569973941 / 36028797018963968))
               - 4510307358584441 / 2199023255552 / (7626096569973941 / 36028797018963968)\<bar>
              \<le> (\<bar>4510307358584441 / 2199023255552 / (7626096569973941 / 36028797018963968)\<bar>
                   + pow2 (- 1022)) / 2 ^ 53
          \<and> um_from_encoder_value_binary64 (one_stage_config True) (zfm2020_controller True) 1
                (if reverse (one_stage_config True) 0 then - n else n) = Inr (Finite um)
          \<and> \<bar>um - 4510307358584441 / 2199023255552\<bar>
              < 7626096569973941 / 36028797018963968
                + (\<bar>4510307358584441 / 2199023255552\<bar> + 7626096569973941 / 36028797018963968) / 2 ^ 51)"
proof -
  have h1: "internal_channels_dict (one_stage_config True) 1 = Some 0"
    by (simp add: one_stage_config_simps)
  have h2: "stage_conversion_um (zfm2020_controller True) 0
      = Some (7626096569973941 / 36028797018963968)"
    by (rule zfm2020_controller_simps)
  have h3: "pow2 (- 500) \<le> 7626096569973941 / 36028797018963968"
    by (simp add: pow2_def)
  have h4: "7626096569973941 / 36028797018963968 \<le> pow2 500"
    by (simp add: pow2_def)
  have h5: "\<bar>real_of_int 9689\<bar> \<le> pow2 500"
    by (simp add: pow2_def)
  have h6: "\<bar>4510307358584441 / 2199023255552\<bar> \<le> pow2 500"
    by (simp add: pow2_def)
  have r: "reverse (one_stage_config True) 0"
    by (simp add: one_stage_config_simps)
  have a: "encoder_value_from_um_binary64 (one_stage_config True) (zfm2020_controller True) 1
        (4510307358584441 / 2199023255552) = Inr (- 9689)"
    by (simp add: encoder_value_from_um_binary64_def zfm2020_controller_simps
        one_stage_config_simps binary64_run)
  have b: "um_from_encoder_value_binary64 (one_stage_config True) (zfm2020_controller True) 1 (- 9689)
        = Inr (Finite (4509841898588715 / 2199023255552))"
    by (simp add: um_from_encoder_value_binary64_def zfm2020_controller_simps
        one_stage_config_simps binary64_run)
  note inst = conversion_round_trip_binary64[OF h1 h2 h3 h4, of 9689
      "4510307358584441 / 2199023255552"]
  note c1 = mp[OF conjunct1[OF inst] h5]
  note c2 = mp[OF conjunct2[OF inst] h6]
  from h1 h2 h3 h4 h5 h6 r a b c1 c2 show ?thesis
    by (intro conjI)
qed

text \<open>
  The claim as first stated, with a round-trip error of at most one conversion step,
  fails in binary64. On the ZFM2020 axis, not reversed, the float of the literal
  \<^verbatim>\<open>2051.050323\<close> converts to the encoder value 9689: the quotient of the two floats
  is just below 9690. The encoder value 9689 converts back to the float nearest
  \<open>9689 * conv\<close>, which rounding has moved away from \<open>v\<close>: the two differ by
  \<open>232729997863 / 2 ^ 40\<close>, more than the conversion factor \<open>7626096569973941 / 2 ^ 55\<close>.
\<close>

theorem round_trip_exceeds_one_step_counterexample:
  "round_binary64 (2116667 / 10000000) = Finite (7626096569973941 / 36028797018963968)
   \<and> round_binary64 (2051050323 / 1000000) = Finite (4510307358584441 / 2199023255552)
   \<and> stage_conversion_um (zfm2020_controller False) 0
        = Some (7626096569973941 / 36028797018963968)
   \<and> encoder_value_from_um_binary64 (one_stage_config False) (zfm2020_controller False) 1
        (4510307358584441 / 2199023255552) = Inr 9689
   \<and> um_from_encoder_value_binary64 (one_stage_config False) (zfm2020_controller False) 1 9689
        = Inr (Finite (4509841898588715 / 2199023255552))
   \<and> \<not> \<bar>4509841898588715 / 2199023255552 - 4510307358584441 / 2199023255552\<bar>
         \<le> (7626096569973941 / 36028797018963968 :: real)"
  by (simp add: encoder_value_from_um_binary64_def um_from_encoder_value_binary64_def
      zfm2020_controller_simps one_stage_config_simps binary64_run)

section \<open>Position queries\<close>

lemma internal_channel_less: "internal_channels_dict cfg channel = Some i \<Longrightarrow> i < 3"
proof -
  assume "internal_channels_dict cfg channel = Some i"
  then have "(channel, i) \<in> set (rev (zip (channels cfg) [0, 1, 2]))"
    unfolding internal_channels_dict_def by (rule map_of_SomeD)
  then have "i \<in> set [0, 1, 2 :: nat]"
    by (auto dest: set_zip_rightD)
  then show ?thesis by auto
qed

lemma to_bytes_channel_byte: "i < 3 \<Longrightarrow> to_bytes_little (Suc 0) False (int i) = Inr [of_nat i]"
  by (simp add: to_bytes_little_def)


lemma get_encoder_value_reply:
  assumes "channel \<in> set (channels cfg)"
    and "internal_channels_dict cfg channel = Some i"
    and "stages cfg i \<noteq> None"
    and "inbuf dev = []"
    and "replies dev = (latency, response) # rest"
    and "length response = 12"
  shows "get_encoder_value cfg channel dev =
           (if response ! 6 = of_nat i then Inr (from_bytes_little_signed (drop 8 response))
            else Inl (AssertionError ProtocolMismatch),
            dev\<lparr>written := written dev @ [query_cmd [of_nat i]],
                received := received dev @ [response], inbuf := [],
                replies := rest, clock := clock dev + latency\<rparr>)"
proof -
  have i3: "i < 3" using assms(2) by (rule internal_channel_less)
  have t: "take 1 (drop 6 response) = [response ! 6]"
    using assms(6) by (simp add: take_Suc_conv_app_nth)
  show ?thesis
    using assms i3 t
    by (simp add: get_encoder_value_def send_def port_write_def port_read_def
        to_bytes_channel_byte)
qed

lemma uint_byte_less: "uint (b :: byte) < 256"
  using uint_bounded[of b] by simp

lemma sint_of_int_32:
  assumes "0 \<le> v" "v < 4294967296"
  shows "sint (word_of_int v :: 32 word) = (if 2147483648 \<le> v then v - 4294967296 else v)"
proof (cases "2147483648 \<le> v")
  case True
  then have "(v + 2147483648) mod 4294967296 = v + 2147483648 - 4294967296"
    using assms by (simp add: mod_pos_geq[of "4294967296" "v + 2147483648"])
  then show ?thesis using True by (simp add: int_word_sint)
next
  case False
  then have "(v + 2147483648) mod 4294967296 = v + 2147483648"
    using assms by simp
  then show ?thesis using False by (simp add: int_word_sint)
qed

lemma from_bytes_little_signed_4:
  "from_bytes_little_signed [b0, b1, b2, b3] = sint (word_rcat [b3, b2, b1, b0] :: 32 word)"
proof -
  let ?v = "uint b0 + 256 * uint b1 + 65536 * uint b2 + 16777216 * uint b3"
  have b: "uint b0 < 256" "uint b1 < 256" "uint b2 < 256" "uint b3 < 256"
    by (rule uint_byte_less)+
  have nn: "0 \<le> uint b0" "0 \<le> uint b1" "0 \<le> uint b2" "0 \<le> uint b3"
    by simp_all
  have lo: "0 \<le> ?v" using nn by linarith
  have hi: "?v < 4294967296" using b by linarith
  have "(word_rcat [b3, b2, b1, b0] :: 32 word) = word_of_int ?v"
    by (simp add: word_rcat_def algebra_simps)
  then have "sint (word_rcat [b3, b2, b1, b0] :: 32 word)
               = (if 2147483648 \<le> ?v then ?v - 4294967296 else ?v)"
    using sint_of_int_32[OF lo hi] by simp
  moreover have "from_bytes_little_signed [b0, b1, b2, b3]
               = (if 2147483648 \<le> ?v then ?v - 4294967296 else ?v)"
    by (simp add: from_bytes_little_signed_def Let_def)
  ultimately show ?thesis by simp
qed

lemma last_four_bytes:
  assumes "length response = 12"
  shows "drop 8 response = [response ! 8, response ! 9, response ! 10, response ! 11]"
proof (rule nth_equalityI)
  show "length (drop 8 response) = length [response ! 8, response ! 9, response ! 10, response ! 11]"
    using assms by simp
next
  fix k
  assume "k < length (drop 8 response)"
  then have "k < 4" using assms by simp
  then consider "k = 0" | "k = 1" | "k = 2" | "k = 3" by linarith
  then show "drop 8 response ! k = [response ! 8, response ! 9, response ! 10, response ! 11] ! k"
    using assms by cases simp_all
qed

lemma finish_move_mismatch_keeps_state:
  "finish_move cfg channel st dev = (Inl (AssertionError ProtocolMismatch), st', dev') \<Longrightarrow> st' = st"
  by (auto simp: finish_move_def um_from_encoder_value_def Let_def
      split: if_splits option.splits prod.splits sum.splits)

text \<open>
  Claim C8. A position query on a bound channel whose 12-byte reply does not echo the
  channel index at byte 6 fails with the \<open>ProtocolMismatch\<close> assertion; when the byte
  matches, the value returned is the last four bytes read as a little-endian signed
  32-bit integer. \<open>get_encoder_value\<close> has no access to the controller state, and its
  caller \<open>finish_move\<close>, which stores the value read in \<open>current_encoder_value\<close>,
  leaves the whole state as it was when a query fails so.
\<close>

theorem position_query_echo_check:
  assumes "channel \<in> set (channels cfg)"
    and "internal_channels_dict cfg channel = Some i"
    and "stages cfg i \<noteq> None"
    and "inbuf dev = []"
    and "replies dev = (latency, response) # rest"
    and "length response = 12"
  shows "fst (get_encoder_value cfg channel dev) =
           (if response ! 6 = of_nat i
            then Inr (sint (word_rcat [response ! 11, response ! 10, response ! 9, response ! 8] :: 32 word))
            else Inl (AssertionError ProtocolMismatch))
         \<and> (response ! 6 \<noteq> of_nat i \<and> pending_encoder_value st i \<noteq> None \<longrightarrow>
              fst (finish_move cfg channel st dev) = Inl (AssertionError ProtocolMismatch)
              \<and> fst (snd (finish_move cfg channel st dev)) = st)"
proof -
  have g: "get_encoder_value cfg channel dev =
           (if response ! 6 = of_nat i then Inr (from_bytes_little_signed (drop 8 response))
            else Inl (AssertionError ProtocolMismatch),
            dev\<lparr>written := written dev @ [query_cmd [of_nat i]],
                received := received dev @ [response], inbuf := [],
                replies := rest, clock := clock dev + latency\<rparr>)"
    using assms by (rule get_encoder_value_reply)
  have d: "from_bytes_little_signed (drop 8 response)
             = sint (word_rcat [response ! 11, response ! 10, response ! 9, response ! 8] :: 32 word)"
    by (simp only: last_four_bytes[OF assms(6)] from_bytes_little_signed_4)
  have first: "fst (get_encoder_value cfg channel dev) =
           (if response ! 6 = of_nat i
            then Inr (sint (word_rcat [response ! 11, response ! 10, response ! 9, response ! 8] :: 32 word))
            else Inl (AssertionError ProtocolMismatch))"
    using g d by simp
  have second: "fst (finish_move cfg channel st dev) = Inl (AssertionError ProtocolMismatch)
              \<and> fst (snd (finish_move cfg channel st dev)) = st"
    if "response ! 6 \<noteq> of_nat i" "pending_encoder_value st i \<noteq> None"
    using that assms(1,2) g by (auto simp: finish_move_def)
  from first second show ?thesis by blast
qed

theorem position_query_echo_check_witness:
  "1 \<in> set (channels (one_stage_config False))
   \<and> internal_channels_dict (one_stage_config False) 1 = Some 0
   \<and> stages (one_stage_config False) 0 \<noteq> None
   \<and> inbuf (idle_port [(3, [10, 4, 6, 0, 0, 0, 1, 0, 117, 18, 0, 0])]) = []
   \<and> replies (idle_port [(3, [10, 4, 6, 0, 0, 0, 1, 0, 117, 18, 0, 0])])
        = [(3, [10, 4, 6, 0, 0, 0, 1, 0, 117, 18, 0, 0])]
   \<and> length [10, 4, 6, 0, 0, 0, 1, 0, 117, 18, 0, 0 :: byte] = 12
   \<and> pending_encoder_value ((one_stage_controller False 0)\<lparr>pending_encoder_value := (\<lambda>_. Some 7)\<rparr>) 0 \<noteq> None
   \<and> fst (get_encoder_value (one_stage_config False) 1
            (idle_port [(3, [10, 4, 6, 0, 0, 0, 1, 0, 117, 18, 0, 0])]))
        = Inl (AssertionError ProtocolMismatch)
   \<and> fst (snd (finish_move (one_stage_config False) 1
            ((one_stage_controller False 0)\<lparr>pending_encoder_value := (\<lambda>_. Some 7)\<rparr>)
            (idle_port [(3, [10, 4, 6, 0, 0, 0, 1, 0, 117, 18, 0, 0])])))
        = (one_stage_controller False 0)\<lparr>pending_encoder_value := (\<lambda>_. Some 7)\<rparr>"
proof -
  let ?dev = "idle_port [(3, [10, 4, 6, 0, 0, 0, 1, 0, 117, 18, 0, 0])]"
  have h1: "1 \<in> set (channels (one_stage_config False))"
    by (simp add: one_stage_config_simps)
  have h2: "internal_channels_dict (one_stage_config False) 1 = Some 0"
    by (simp add: one_stage_config_simps)
  have h3: "stages (one_stage_config False) 0 \<noteq> None"
    by (simp add: one_stage_config_simps)
  have h4: "inbuf ?dev = []" by (simp add: idle_port_def)
  have h5: "replies ?dev = (3, [10, 4, 6, 0, 0, 0, 1, 0, 117, 18, 0, 0]) # []"
    by (simp add: idle_port_def)
  have h6: "length [10, 4, 6, 0, 0, 0, 1, 0, 117, 18, 0, 0 :: byte] = 12" by simp
  show ?thesis
    using position_query_echo_check[OF h1 h2 h3 h4 h5 h6,
        of "(one_stage_controller False 0)\<lparr>pending_encoder_value := (\<lambda>_. Some 7)\<rparr>"]
      h1 h2 h3 h4 h5
    by simp
qed

theorem position_query_decodes_little_endian:
  "get_encoder_value (one_stage_config False) 1
     (idle_port [(3, [10, 4, 6, 0, 0, 0, 0, 0, 162, 21, 255, 255])])
   = (Inr (- 59998),
      \<lparr>written = [[10, 4, 0, 0, 0, 0]], received = [[10, 4, 6, 0, 0, 0, 0, 0, 162, 21, 255, 255]],
       inbuf = [], replies = [], clock = 3\<rparr>)"
  by (simp add: get_encoder_value_def send_def port_write_def port_read_def idle_port_def
      to_bytes_little_def query_cmd_def from_bytes_little_signed_def one_stage_config_simps)

section \<open>Resolution of moves\<close>


lemma get_encoder_value_written:
  assumes "get_encoder_value cfg channel dev = (r, dev')"
    and "internal_channels_dict cfg channel = Some i"
  shows "written dev' = written dev \<or> written dev' = written dev @ [query_cmd [of_nat i]]"
proof -
  have "i < 3" using assms(2) by (rule internal_channel_less)
  then show ?thesis
    using assms
    by (auto simp: get_encoder_value_def send_def port_write_def port_read_def Let_def
        to_bytes_channel_byte
        split: if_splits option.splits sum.splits prod.splits list.splits)
qed













lemma bytes_little_4:
  "bytes_little 4 v = [word_of_int (v mod 256), word_of_int (v div 256 mod 256),
     word_of_int (v div 256 div 256 mod 256), word_of_int (v div 256 div 256 div 256 mod 256)]"
  by (simp add: numeral_eq_Suc)

lemma bytes_little_2:
  "bytes_little 2 v = [word_of_int (v mod 256), word_of_int (v div 256 mod 256)]"
  by (simp add: numeral_eq_Suc)

lemmas port_run = get_encoder_value_def send_def port_write_def port_read_def sleep_def
  to_bytes_little_def query_cmd_def move_cmd_def from_bytes_little_signed_def idle_port_def
  position_reply_def bytes_little_4 bytes_little_2

lemmas float_run = um_from_encoder_value_def encoder_value_from_um_def fmul_def fadd_def py_int_def


text \<open>
  The deadline bounds the polling: every round of the loop sleeps 100 ms, so a call
  of \<open>finish_move\<close> writes at most 62 position queries, whatever the device answers.
\<close>

lemma finish_move_loop_polls:
  "finish_move_loop cfg channel pending timeout current dev = (r, dev') \<Longrightarrow>
   internal_channels_dict cfg channel = Some i \<Longrightarrow>
     \<exists>n. written dev' = written dev @ replicate n (query_cmd [of_nat i])
         \<and> 100 * n \<le> (Suc timeout - clock dev) + 99"
proof (induction cfg channel pending timeout current dev rule: finish_move_loop.induct)
  case (1 cfg channel pending timeout current dev)
  show ?case
  proof (cases "current = pending \<or> timeout < clock dev")
    case True
    then have "dev' = dev"
      using "1.prems"
      by (auto simp: finish_move_loop.simps[of cfg channel pending timeout current dev]
          split: if_splits)
    then have "written dev' = written dev @ replicate 0 (query_cmd [of_nat i])
         \<and> 100 * 0 \<le> (Suc timeout - clock dev) + 99" by simp
    then show ?thesis by blast
  next
    case False
    then have early: "clock dev \<le> timeout" by simp
    obtain r1 dev1 where g: "get_encoder_value cfg channel (sleep 100 dev) = (r1, dev1)"
      by (cases "get_encoder_value cfg channel (sleep 100 dev)")
    have w1: "written dev1 = written dev \<or> written dev1 = written dev @ [query_cmd [of_nat i]]"
      using get_encoder_value_written[OF g "1.prems"(2)] by (simp add: sleep_def)
    have c1: "clock dev + 100 \<le> clock dev1"
      using get_encoder_value_clock[OF g] by (simp add: sleep_def)
    show ?thesis
    proof (cases r1)
      case (Inl e)
      then have "dev' = dev1"
        using False g "1.prems"
        by (auto simp: finish_move_loop.simps[of cfg channel pending timeout current dev])
      with w1 early have "(written dev' = written dev @ replicate 0 (query_cmd [of_nat i])
            \<and> 100 * 0 \<le> (Suc timeout - clock dev) + 99)
           \<or> (written dev' = written dev @ replicate 1 (query_cmd [of_nat i])
            \<and> 100 * 1 \<le> (Suc timeout - clock dev) + 99)" by auto
      then show ?thesis by blast
    next
      case (Inr current1)
      then have rec: "finish_move_loop cfg channel pending timeout current1 dev1 = (r, dev')"
        using False g "1.prems"
        by (auto simp: finish_move_loop.simps[of cfg channel pending timeout current dev])
      obtain n where n: "written dev' = written dev1 @ replicate n (query_cmd [of_nat i])"
          "100 * n \<le> (Suc timeout - clock dev1) + 99"
        using "1.IH" False g Inr rec "1.prems"(2) by auto
      have less: "100 * Suc n \<le> (Suc timeout - clock dev) + 99"
        using n(2) c1 early by arith
      then have less': "100 * n \<le> (Suc timeout - clock dev) + 99" by simp
      from n(1) w1 have "written dev' = written dev @ replicate n (query_cmd [of_nat i])
           \<or> written dev' = written dev @ replicate (Suc n) (query_cmd [of_nat i])" by auto
      with less less' show ?thesis by blast
    qed
  qed
qed

lemma finish_move_polls:
  assumes "finish_move cfg channel st dev = (r, st1, dev1)"
    and "internal_channels_dict cfg channel = Some i"
  shows "\<exists>n. written dev1 = written dev @ replicate n (query_cmd [of_nat i]) \<and> n \<le> 62"
proof (cases "channel \<in> set (channels cfg) \<and> pending_encoder_value st i \<noteq> None")
  case False
  then have "dev1 = dev"
    using assms by (auto simp: finish_move_def split: if_splits)
  then have "written dev1 = written dev @ replicate 0 (query_cmd [of_nat i]) \<and> (0::nat) \<le> 62"
    by simp
  then show ?thesis by blast
next
  case True
  then obtain p where p: "pending_encoder_value st i = Some p" by auto
  obtain r0 dev0 where g: "get_encoder_value cfg channel dev = (r0, dev0)"
    by (cases "get_encoder_value cfg channel dev")
  have w0: "written dev0 = written dev \<or> written dev0 = written dev @ [query_cmd [of_nat i]]"
    using get_encoder_value_written[OF g assms(2)] .
  show ?thesis
  proof (cases r0)
    case (Inl e)
    then have "dev1 = dev0"
      using True p g assms by (auto simp: finish_move_def)
    with w0 have "(written dev1 = written dev @ replicate 0 (query_cmd [of_nat i]) \<and> (0::nat) \<le> 62)
           \<or> (written dev1 = written dev @ replicate 1 (query_cmd [of_nat i]) \<and> (1::nat) \<le> 62)"
      by simp
    then show ?thesis by blast
  next
    case (Inr current)
    obtain r2 dev2 where l: "finish_move_loop cfg channel p (clock dev0 + 6000) current dev0 = (r2, dev2)"
      by (cases "finish_move_loop cfg channel p (clock dev0 + 6000) current dev0")
    have same: "dev1 = dev2"
      using True p g Inr l assms
      by (auto simp: finish_move_def Let_def split: sum.splits)
    obtain n where n: "written dev2 = written dev0 @ replicate n (query_cmd [of_nat i])"
        "100 * n \<le> (Suc (clock dev0 + 6000) - clock dev0) + 99"
      using finish_move_loop_polls[OF l assms(2)] by blast
    from n(2) have bound: "n \<le> 61" by simp
    from n(1) same w0 have "written dev1 = written dev @ replicate n (query_cmd [of_nat i])
           \<or> written dev1 = written dev @ replicate (Suc n) (query_cmd [of_nat i])"
      by auto
    moreover have "n \<le> 62" "Suc n \<le> 62" using bound by simp_all
    ultimately show ?thesis by blast
  qed
qed

section \<open>Explicit zeros\<close>

lemma set_stage_limit_um_position:
  assumes "set_stage_limit_um cfg channel lower_limit None st dev = (Inr v, st', dev')"
  shows "get_position_um cfg channel st dev = (Inr v, dev')"
  using assms
  by (auto simp: set_stage_limit_um_def Let_def
      split: if_splits option.splits sum.splits prod.splits bool.splits)

lemma set_retract_point_um_position:
  assumes "set_retract_point_um cfg channel None relative st dev = (Inr v, st', dev')"
  shows "get_position_um cfg channel st dev = (Inr v, dev')"
  using assms
  by (auto simp: set_retract_point_um_def Let_def
      split: if_splits option.splits sum.splits prod.splits bool.splits)

text \<open>
  Claim C10. \<^verbatim>\<open>if limit_um:\<close> and \<^verbatim>\<open>if retract_um_pos:\<close> are false for 0.0, so a call
  with the explicit value 0.0 is the call with the value omitted: same result, same
  state, same traffic on the port. When such a call returns, the value it returns
  and stores is the position read from the device by \<open>get_position_um\<close>, not 0.0.
\<close>

theorem explicit_zero_treated_as_omitted:
  "set_stage_limit_um cfg channel lower_limit (Some 0) st dev
     = set_stage_limit_um cfg channel lower_limit None st dev
   \<and> set_retract_point_um cfg channel (Some 0) relative st dev
     = set_retract_point_um cfg channel None relative st dev
   \<and> (\<forall>v st' dev'. set_stage_limit_um cfg channel lower_limit (Some 0) st dev = (Inr v, st', dev')
         \<longrightarrow> get_position_um cfg channel st dev = (Inr v, dev'))
   \<and> (\<forall>v st' dev'. set_retract_point_um cfg channel (Some 0) relative st dev = (Inr v, st', dev')
         \<longrightarrow> get_position_um cfg channel st dev = (Inr v, dev'))"
proof -
  have a: "set_stage_limit_um cfg channel lower_limit (Some 0) st dev
     = set_stage_limit_um cfg channel lower_limit None st dev"
    by (simp add: set_stage_limit_um_def)
  have b: "set_retract_point_um cfg channel (Some 0) relative st dev
     = set_retract_point_um cfg channel None relative st dev"
    by (simp add: set_retract_point_um_def)
  from a b set_stage_limit_um_position set_retract_point_um_position show ?thesis
    by metis
qed

lemma reverse_limit_signs_one_stage:
  "reverse_limit_signs (one_stage_config False) 1 (one_stage_controller False e)
     = (Inr (), (one_stage_controller True e)\<lparr>stage_retract_point_um :=
          PerChannel ((\<lambda>_. None)(0 := Some (- (12700 - 2116667 / 10000000))))\<rparr>)"
  by (simp add: reverse_limit_signs_def negate_item_def one_stage_config_simps
      one_stage_controller_def)

theorem explicit_zero_treated_as_omitted_witness:
  "set_stage_limit_um (one_stage_config False) 1 True (Some 0) (one_stage_controller False 0)
       (idle_port [(2, position_reply 0 4725)])
     = (Inr (4725 * 2116667 / 10000000),
        (one_stage_controller False 0)\<lparr>stage_lowest_scan_point_um := Scalar (4725 * 2116667 / 10000000)\<rparr>,
        \<lparr>written = [[10, 4, 0, 0, 0, 0]], received = [position_reply 0 4725], inbuf = [],
         replies = [], clock = 2\<rparr>)
   \<and> set_retract_point_um (one_stage_config False) 1 (Some 0) False
       (snd (reverse_limit_signs (one_stage_config False) 1 (one_stage_controller False 0)))
       (idle_port [(2, position_reply 0 4725)])
     = (Inr (4725 * 2116667 / 10000000),
        (snd (reverse_limit_signs (one_stage_config False) 1 (one_stage_controller False 0)))
          \<lparr>stage_retract_point_um := Scalar (4725 * 2116667 / 10000000)\<rparr>,
        \<lparr>written = [[10, 4, 0, 0, 0, 0]], received = [position_reply 0 4725], inbuf = [],
         replies = [], clock = 2\<rparr>)
   \<and> get_position_um (one_stage_config False) 1 (one_stage_controller False 0)
       (idle_port [(2, position_reply 0 4725)])
     = (Inr (4725 * 2116667 / 10000000),
        \<lparr>written = [[10, 4, 0, 0, 0, 0]], received = [position_reply 0 4725], inbuf = [],
         replies = [], clock = 2\<rparr>)
   \<and> get_position_um (one_stage_config False) 1
       (snd (reverse_limit_signs (one_stage_config False) 1 (one_stage_controller False 0)))
       (idle_port [(2, position_reply 0 4725)])
     = (Inr (4725 * 2116667 / 10000000),
        \<lparr>written = [[10, 4, 0, 0, 0, 0]], received = [position_reply 0 4725], inbuf = [],
         replies = [], clock = 2\<rparr>)"
proof -
  let ?cfg = "one_stage_config False"
  let ?st = "one_stage_controller False 0"
  let ?rst = "snd (reverse_limit_signs ?cfg 1 ?st)"
  let ?dev = "idle_port [(2, position_reply 0 4725)]"
  let ?dev' = "\<lparr>written = [[10, 4, 0, 0, 0, 0]], received = [position_reply 0 4725], inbuf = [],
         replies = [], clock = 2\<rparr>"
  have a: "set_stage_limit_um ?cfg 1 True (Some 0) ?st ?dev
     = (Inr (4725 * 2116667 / 10000000),
        ?st\<lparr>stage_lowest_scan_point_um := Scalar (4725 * 2116667 / 10000000)\<rparr>, ?dev')"
    by (simp add: set_stage_limit_um_def get_position_um_def chain_le_def port_run float_run
        one_stage_config_simps one_stage_controller_simps)
  have b: "set_retract_point_um ?cfg 1 (Some 0) False ?rst ?dev
     = (Inr (4725 * 2116667 / 10000000),
        ?rst\<lparr>stage_retract_point_um := Scalar (4725 * 2116667 / 10000000)\<rparr>, ?dev')"
    by (simp add: set_retract_point_um_def get_position_um_def port_run float_run
        reverse_limit_signs_one_stage one_stage_config_simps one_stage_controller_simps)
  note inst = explicit_zero_treated_as_omitted[of ?cfg 1 True ?st ?dev False]
  from inst have "\<forall>v st' dev'. set_stage_limit_um ?cfg 1 True (Some 0) ?st ?dev = (Inr v, st', dev')
         \<longrightarrow> get_position_um ?cfg 1 ?st ?dev = (Inr v, dev')"
    by (rule conjunct1[OF conjunct2[OF conjunct2]])
  with a have c: "get_position_um ?cfg 1 ?st ?dev = (Inr (4725 * 2116667 / 10000000), ?dev')"
    by blast
  note inst2 = explicit_zero_treated_as_omitted[of ?cfg 1 True ?rst ?dev False]
  from inst2 have "\<forall>v st' dev'. set_retract_point_um ?cfg 1 (Some 0) False ?rst ?dev = (Inr v, st', dev')
         \<longrightarrow> get_position_um ?cfg 1 ?rst ?dev = (Inr v, dev')"
    by (rule conjunct2[OF conjunct2[OF conjunct2]])
  with b have d: "get_position_um ?cfg 1 ?rst ?dev = (Inr (4725 * 2116667 / 10000000), ?dev')"
    by blast
  from a b c d show ?thesis by (intro conjI)
qed

section \<open>A pending target of zero\<close>

text \<open>
  Claim C9. With a pending target of exactly 0 on the channel, the tests
  \<^verbatim>\<open>if self._pending_encoder_value[...]\<close> are false: \<open>check_min_motion\<close> compares the
  target with \<open>current_encoder_value\<close>, and a relative request is added to
  \<open>current_encoder_value\<close>. So a relative request of 0 counts returns \<^verbatim>\<open>None\<close> at
  once, and any value \<open>legalize_move_um\<close> returns is the um value of
  \<open>requested + current\<close>.
\<close>

theorem pending_zero_counts_as_idle:
  assumes "channel \<in> set (channels cfg)"
    and "internal_channels_dict cfg channel = Some i"
    and "pending_encoder_value st i = Some 0"
    and "current_encoder_value st i = Some current"
    and "encoder_value_from_um cfg st channel um = Inr requested"
  shows "reference_encoder st i = Some current
       \<and> check_min_motion fuel cfg channel target st dev =
           (if target = current then (Inr False, st, dev)
            else if \<bar>target - current\<bar> \<le> min_encoder_motion
            then (case fuel of
                    0 \<Rightarrow> (Inl RecursionError, st, dev)
                  | Suc n \<Rightarrow>
                      (case move_um n cfg channel 10 True True False st dev of
                         (Inl e, st1, dev1) \<Rightarrow> (Inl e, st1, dev1)
                       | (Inr _, st1, dev1) \<Rightarrow> (Inr True, st1, dev1)))
            else (Inr True, st, dev))
       \<and> (requested = 0 \<longrightarrow>
             legalize_move_um fuel cfg channel um True verbose_arg st dev = (Inr None, st, dev))
       \<and> (\<forall>v st1 dev1.
             legalize_move_um fuel cfg channel um True verbose_arg st dev = (Inr (Some v), st1, dev1) \<longrightarrow>
               (\<exists>target_move_um.
                  um_from_encoder_value cfg st1 channel (requested + current) = Inr target_move_um
                  \<and> v = fval target_move_um))"
proof -
  have r: "reference_encoder st i = Some current"
    using assms by (simp add: reference_encoder_def)
  have c: "check_min_motion fuel cfg channel target st dev =
           (if target = current then (Inr False, st, dev)
            else if \<bar>target - current\<bar> \<le> min_encoder_motion
            then (case fuel of
                    0 \<Rightarrow> (Inl RecursionError, st, dev)
                  | Suc n \<Rightarrow>
                      (case move_um n cfg channel 10 True True False st dev of
                         (Inl e, st1, dev1) \<Rightarrow> (Inl e, st1, dev1)
                       | (Inr _, st1, dev1) \<Rightarrow> (Inr True, st1, dev1)))
            else (Inr True, st, dev))" for target
    using assms by (simp add: check_min_motion.simps[of fuel cfg channel target st dev])
  have z: "legalize_move_um fuel cfg channel um True verbose_arg st dev = (Inr None, st, dev)"
    if "requested = 0"
    using that assms c[of current]
    by (simp add: legalize_move_um.simps[of fuel cfg channel um True verbose_arg st dev])
  have v: "\<exists>target_move_um.
                  um_from_encoder_value cfg st1 channel (requested + current) = Inr target_move_um
                  \<and> v = fval target_move_um"
    if "legalize_move_um fuel cfg channel um True verbose_arg st dev = (Inr (Some v), st1, dev1)"
    for v st1 dev1
    using that assms
    by (auto simp: legalize_move_um.simps[of fuel cfg channel um True verbose_arg st dev] Let_def
        split: if_splits sum.splits prod.splits bool.splits)
  from r c z v show ?thesis by blast
qed

theorem pending_zero_counts_as_idle_witness:
  "1 \<in> set (channels (one_stage_config False))
   \<and> internal_channels_dict (one_stage_config False) 1 = Some 0
   \<and> pending_encoder_value
         ((one_stage_controller False 1000)\<lparr>pending_encoder_value := (\<lambda>_. None)(0 := Some 0)\<rparr>) 0 = Some 0
   \<and> current_encoder_value
         ((one_stage_controller False 1000)\<lparr>pending_encoder_value := (\<lambda>_. None)(0 := Some 0)\<rparr>) 0
       = Some 1000
   \<and> encoder_value_from_um (one_stage_config False)
         ((one_stage_controller False 1000)\<lparr>pending_encoder_value := (\<lambda>_. None)(0 := Some 0)\<rparr>) 1 100
       = Inr 472
   \<and> encoder_value_from_um (one_stage_config False)
         ((one_stage_controller False 1000)\<lparr>pending_encoder_value := (\<lambda>_. None)(0 := Some 0)\<rparr>) 1 (1 / 10)
       = Inr 0
   \<and> legalize_move_um 1 (one_stage_config False) 1 100 True False
         ((one_stage_controller False 1000)\<lparr>pending_encoder_value := (\<lambda>_. None)(0 := Some 0)\<rparr>)
         (idle_port [])
       = (Inr (Some (1472 * 2116667 / 10000000)),
          (one_stage_controller False 1000)\<lparr>pending_encoder_value := (\<lambda>_. None)(0 := Some 0)\<rparr>,
          idle_port [])
   \<and> legalize_move_um 1 (one_stage_config False) 1 (1 / 10) True False
         ((one_stage_controller False 1000)\<lparr>pending_encoder_value := (\<lambda>_. None)(0 := Some 0)\<rparr>)
         (idle_port [])
       = (Inr None,
          (one_stage_controller False 1000)\<lparr>pending_encoder_value := (\<lambda>_. None)(0 := Some 0)\<rparr>,
          idle_port [])
   \<and> (\<exists>target_move_um.
         um_from_encoder_value (one_stage_config False)
           ((one_stage_controller False 1000)\<lparr>pending_encoder_value := (\<lambda>_. None)(0 := Some 0)\<rparr>) 1
           (472 + 1000) = Inr target_move_um
         \<and> 1472 * 2116667 / 10000000 = fval target_move_um)"
proof -
  let ?cfg = "one_stage_config False"
  let ?st = "(one_stage_controller False 1000)\<lparr>pending_encoder_value := (\<lambda>_. None)(0 := Some 0)\<rparr>"
  have h1: "1 \<in> set (channels ?cfg)" by (simp add: one_stage_config_simps)
  have h2: "internal_channels_dict ?cfg 1 = Some 0" by (simp add: one_stage_config_simps)
  have h3: "pending_encoder_value ?st 0 = Some 0" by simp
  have h4: "current_encoder_value ?st 0 = Some 1000" by (simp add: one_stage_controller_simps)
  have h5: "encoder_value_from_um ?cfg ?st 1 100 = Inr 472"
    by (simp add: float_run one_stage_config_simps one_stage_controller_simps)
  have h6: "encoder_value_from_um ?cfg ?st 1 (1 / 10) = Inr 0"
    by (simp add: float_run one_stage_config_simps one_stage_controller_simps)
  have a: "legalize_move_um 1 ?cfg 1 100 True False ?st (idle_port [])
       = (Inr (Some (1472 * 2116667 / 10000000)), ?st, idle_port [])"
    by (simp add: legalize_move_um.simps check_min_motion.simps min_encoder_motion_def
        chain_le_def float_run one_stage_config_simps one_stage_controller_simps)
  note moving = pending_zero_counts_as_idle[OF h1 h2 h3 h4 h5, of 1 0 "idle_port []" False]
  note still = pending_zero_counts_as_idle[OF h1 h2 h3 h4 h6, of 1 0 "idle_port []" False]
  from still have b: "legalize_move_um 1 ?cfg 1 (1 / 10) True False ?st (idle_port [])
       = (Inr None, ?st, idle_port [])"
    by blast
  from moving a have c: "\<exists>target_move_um.
         um_from_encoder_value ?cfg ?st 1 (472 + 1000) = Inr target_move_um
         \<and> 1472 * 2116667 / 10000000 = fval target_move_um"
    by blast
  from h1 h2 h3 h4 h5 h6 a b c show ?thesis by (intro conjI)
qed

section \<open>Out-of-range requests\<close>

lemma get_encoder_value_not_out_of_range:
  "get_encoder_value cfg channel dev = (r, dev') \<Longrightarrow> r \<noteq> Inl (AssertionError OutOfRange)"
  by (auto simp: get_encoder_value_def send_def port_read_def to_bytes_little_def Let_def
      split: if_splits option.splits sum.splits prod.splits)

lemma finish_move_loop_not_out_of_range:
  "finish_move_loop cfg channel pending timeout current dev = (r, dev') \<Longrightarrow>
     r \<noteq> Inl (AssertionError OutOfRange)"
proof (induction cfg channel pending timeout current dev rule: finish_move_loop.induct)
  case (1 cfg channel pending timeout current dev)
  show ?case
  proof (cases "current = pending \<or> timeout < clock dev")
    case True
    then show ?thesis
      using "1.prems"
      by (auto simp: finish_move_loop.simps[of cfg channel pending timeout current dev]
          split: if_splits)
  next
    case False
    obtain r1 dev1 where g: "get_encoder_value cfg channel (sleep 100 dev) = (r1, dev1)"
      by (cases "get_encoder_value cfg channel (sleep 100 dev)")
    show ?thesis
    proof (cases r1)
      case (Inl e)
      then have "r = Inl e"
        using False g "1.prems"
        by (auto simp: finish_move_loop.simps[of cfg channel pending timeout current dev])
      with Inl get_encoder_value_not_out_of_range[OF g] show ?thesis by simp
    next
      case (Inr current1)
      then have "finish_move_loop cfg channel pending timeout current1 dev1 = (r, dev')"
        using False g "1.prems"
        by (auto simp: finish_move_loop.simps[of cfg channel pending timeout current dev])
      then show ?thesis
        using "1.IH" False g Inr by auto
    qed
  qed
qed

lemma finish_move_not_out_of_range:
  assumes "finish_move cfg channel st dev = (r, st', dev')"
  shows "r \<noteq> Inl (AssertionError OutOfRange)"
proof
  assume oor: "r = Inl (AssertionError OutOfRange)"
  show False
    using assms oor get_encoder_value_not_out_of_range finish_move_loop_not_out_of_range
    by (fastforce simp: finish_move_def um_from_encoder_value_def Let_def
        split: if_splits option.splits sum.splits prod.splits)
qed

lemma send_not_out_of_range:
  "send cfg cmd channel n dev = (r, dev') \<Longrightarrow> r \<noteq> Inl (AssertionError OutOfRange)"
  by (auto simp: send_def port_read_def Let_def
      split: if_splits option.splits sum.splits prod.splits)

lemma move_to_encoder_value_not_out_of_range:
  assumes "move_to_encoder_value cfg channel encoder_value block st dev = (r, st', dev')"
  shows "r \<noteq> Inl (AssertionError OutOfRange)"
proof
  assume oor: "r = Inl (AssertionError OutOfRange)"
  show False
    using assms oor finish_move_not_out_of_range send_not_out_of_range
    by (fastforce simp: move_to_encoder_value_def to_bytes_little_def Let_def
        split: if_splits option.splits sum.splits prod.splits)
qed

lemma get_position_um_not_out_of_range:
  assumes "get_position_um cfg channel st dev = (r, dev')"
  shows "r \<noteq> Inl (AssertionError OutOfRange)"
proof
  assume oor: "r = Inl (AssertionError OutOfRange)"
  show False
    using assms oor get_encoder_value_not_out_of_range
    by (fastforce simp: get_position_um_def um_from_encoder_value_def Let_def
        split: if_splits option.splits sum.splits prod.splits)
qed

lemma encoder_value_from_um_not_out_of_range:
  "encoder_value_from_um cfg st channel um \<noteq> Inl (AssertionError OutOfRange)"
  by (auto simp: encoder_value_from_um_def Let_def split: option.splits)

lemma check_min_motion_no_nudge:
  assumes "internal_channels_dict cfg channel = Some i"
    and "reference_encoder st i = Some reference"
    and "min_encoder_motion < \<bar>target - reference\<bar>"
  shows "check_min_motion fuel cfg channel target st dev = (Inr True, st, dev)"
proof (cases "truthy_int (pending_encoder_value st i)")
  case True
  then have "pending_encoder_value st i = Some reference"
    using assms(2) by (simp add: reference_encoder_def)
  then show ?thesis
    using True assms(1,3)
    by (auto simp: check_min_motion.simps[of fuel cfg channel target st dev] min_encoder_motion_def)
next
  case False
  then have "current_encoder_value st i = Some reference"
    using assms(2) by (simp add: reference_encoder_def)
  then show ?thesis
    using False assms(1,3)
    by (auto simp: check_min_motion.simps[of fuel cfg channel target st dev] min_encoder_motion_def)
qed

lemma legalize_move_um_no_nudge:
  assumes "legalize_move_um fuel cfg channel um relative verbose_arg st dev = (r, st1, dev1)"
    and "internal_channels_dict cfg channel = Some i"
    and "encoder_value_from_um cfg st channel um = Inr requested"
    and "reference_encoder st i = Some reference"
    and "min_encoder_motion < \<bar>(if relative then requested + reference else requested) - reference\<bar>"
  shows "st1 = st \<and> dev1 = dev"
proof (cases relative)
  case False
  have c: "check_min_motion fuel cfg channel requested st dev = (Inr True, st, dev)"
    using check_min_motion_no_nudge[OF assms(2,4)] assms(5) False by simp
  show ?thesis
    using assms(1,2,3) False c
    by (auto simp: legalize_move_um.simps Let_def
        split: if_splits sum.splits bool.splits)
next
  case True
  have c: "check_min_motion fuel cfg channel (requested + reference) st dev = (Inr True, st, dev)"
    using check_min_motion_no_nudge[OF assms(2,4)] assms(5) True by simp
  show ?thesis
  proof (cases "truthy_int (pending_encoder_value st i)")
    case moving: True
    then have p: "pending_encoder_value st i = Some reference"
      using assms(4) by (simp add: reference_encoder_def)
    show ?thesis
      using assms(1,2,3) True moving p c
      by (auto simp: legalize_move_um.simps Let_def
          split: if_splits sum.splits bool.splits)
  next
    case idle: False
    then have p: "current_encoder_value st i = Some reference"
      using assms(4) by (simp add: reference_encoder_def)
    show ?thesis
      using assms(1,2,3) True idle p c
      by (auto simp: legalize_move_um.simps Let_def
          split: if_splits sum.splits bool.splits)
  qed
qed

text \<open>
  A request whose target is more than \<open>min_encoder_motion\<close> counts away from the
  current (or pending) encoder value makes no nudge; when it is rejected as out of
  range, nothing has been written and the state is as before.
\<close>

lemma out_of_range_without_nudge:
  assumes "move_um fuel cfg channel um relative block verbose_arg st dev
             = (Inl (AssertionError OutOfRange), st', dev')"
    and "internal_channels_dict cfg channel = Some i"
    and "encoder_value_from_um cfg st channel um = Inr requested"
    and "reference_encoder st i = Some reference"
    and "min_encoder_motion < \<bar>(if relative then requested + reference else requested) - reference\<bar>"
  shows "st' = st \<and> dev' = dev"
proof -
  obtain r st1 dev1 where l: "legalize_move_um fuel cfg channel um relative verbose_arg st dev = (r, st1, dev1)"
    by (cases "legalize_move_um fuel cfg channel um relative verbose_arg st dev")
  have same: "st1 = st \<and> dev1 = dev"
    using legalize_move_um_no_nudge[OF l assms(2-5)] .
  have ch: "channel \<in> set (channels cfg)"
    using assms(1) by (auto simp: move_um.simps[of fuel cfg channel um relative block verbose_arg st dev]
        split: if_splits)
  show ?thesis
  proof (cases r)
    case (Inl e)
    then show ?thesis
      using assms(1) l same ch
      by (simp add: move_um.simps[of fuel cfg channel um relative block verbose_arg st dev])
  next
    case (Inr legal_move_um)
    have False
      using assms(1) l Inr ch get_position_um_not_out_of_range
        encoder_value_from_um_not_out_of_range move_to_encoder_value_not_out_of_range
        finish_move_not_out_of_range
      by (fastforce simp: move_um.simps[of fuel cfg channel um relative block verbose_arg st dev]
          split: if_splits sum.splits prod.splits)
    then show ?thesis ..
  qed
qed

lemma check_min_motion_cases:
  assumes "check_min_motion fuel cfg channel target st dev = (r, st1, dev1)"
  shows "(st1 = st \<and> dev1 = dev)
       \<or> (\<exists>i reference n r'. internal_channels_dict cfg channel = Some i
             \<and> reference_encoder st i = Some reference
             \<and> target \<noteq> reference \<and> \<bar>target - reference\<bar> \<le> min_encoder_motion
             \<and> fuel = Suc n
             \<and> move_um n cfg channel 10 True True False st dev = (r', st1, dev1)
             \<and> (case r' of Inl e \<Rightarrow> r = Inl e | Inr x \<Rightarrow> r = Inr True))"
proof (cases "internal_channels_dict cfg channel")
  case None
  then show ?thesis
    using assms by (simp add: check_min_motion.simps[of fuel cfg channel target st dev])
next
  case (Some i)
  show ?thesis
  proof (cases "reference_encoder st i")
    case None
    then show ?thesis
      using assms Some
      by (auto simp: check_min_motion.simps[of fuel cfg channel target st dev] reference_encoder_def
          split: if_splits)
  next
    case (Some reference)
    note ref = this
    have body: "check_min_motion fuel cfg channel target st dev =
           (if target = reference then (Inr False, st, dev)
            else if \<bar>target - reference\<bar> \<le> min_encoder_motion
            then (case fuel of
                    0 \<Rightarrow> (Inl RecursionError, st, dev)
                  | Suc n \<Rightarrow>
                      (case move_um n cfg channel 10 True True False st dev of
                         (Inl e, st1, dev1) \<Rightarrow> (Inl e, st1, dev1)
                       | (Inr _, st1, dev1) \<Rightarrow> (Inr True, st1, dev1)))
            else (Inr True, st, dev))"
      using \<open>internal_channels_dict cfg channel = Some i\<close> ref
      by (auto simp: check_min_motion.simps[of fuel cfg channel target st dev] reference_encoder_def
          split: if_splits)
    show ?thesis
    proof (cases "target \<noteq> reference \<and> \<bar>target - reference\<bar> \<le> min_encoder_motion")
      case False
      then show ?thesis using assms body by (auto split: if_splits)
    next
      case True
      show ?thesis
      proof (cases fuel)
        case 0
        then show ?thesis using assms body True by auto
      next
        case (Suc n)
        obtain r' st2 dev2 where m: "move_um n cfg channel 10 True True False st dev = (r', st2, dev2)"
          by (cases "move_um n cfg channel 10 True True False st dev")
        have "st1 = st2 \<and> dev1 = dev2 \<and> (case r' of Inl e \<Rightarrow> r = Inl e | Inr x \<Rightarrow> r = Inr True)"
          using assms body True Suc m by (cases r') auto
        with m True Suc ref \<open>internal_channels_dict cfg channel = Some i\<close> show ?thesis
          by blast
      qed
    qed
  qed
qed

lemma legalize_move_um_out_of_range_cases:
  assumes "legalize_move_um fuel cfg channel um relative verbose_arg st dev
             = (Inl (AssertionError OutOfRange), st1, dev1)"
  shows "(st1 = st \<and> dev1 = dev)
       \<or> ((\<exists>d. guard_delta cfg st channel um relative = Some d \<and> d \<noteq> 0 \<and> \<bar>d\<bar> \<le> min_encoder_motion)
          \<and> (\<exists>n. fuel = Suc n
                \<and> (move_um n cfg channel 10 True True False st dev
                      = (Inl (AssertionError OutOfRange), st1, dev1)
                    \<or> (\<exists>r st2 dev2. move_um n cfg channel 10 True True False st dev
                          = (Inr r, st2, dev2)))))"
proof (cases "st1 = st \<and> dev1 = dev")
  case True
  then show ?thesis by simp
next
  case changed: False
  have ch: "channel \<in> set (channels cfg)"
    using assms by (auto simp: legalize_move_um.simps split: if_splits)
  obtain requested where req: "encoder_value_from_um cfg st channel um = Inr requested"
    using assms ch changed
    by (cases "encoder_value_from_um cfg st channel um") (auto simp: legalize_move_um.simps)
  obtain i where i: "internal_channels_dict cfg channel = Some i"
    using assms ch changed req
    by (cases "internal_channels_dict cfg channel") (auto simp: legalize_move_um.simps)
  let ?t = "if relative
            then (if truthy_int (pending_encoder_value st i)
                  then Inr (requested + the (pending_encoder_value st i))
                  else (case current_encoder_value st i of
                          None \<Rightarrow> Inl TypeError
                        | Some current \<Rightarrow> Inr (requested + current)))
            else (Inr requested :: error + int)"
  obtain target where t: "?t = Inr target"
    using assms ch changed req i
    by (cases ?t) (auto simp: legalize_move_um.simps)
  obtain rc st2 dev2 where c: "check_min_motion fuel cfg channel target st dev = (rc, st2, dev2)"
    by (cases "check_min_motion fuel cfg channel target st dev")
  have after: "(st1 = st2 \<and> dev1 = dev2) \<and> (rc = Inl (AssertionError OutOfRange) \<or> rc = Inr True)"
    using assms ch req i t c
    by (simp add: legalize_move_um.simps)
       (auto simp: Let_def split: if_splits sum.splits bool.splits)
  from check_min_motion_cases[OF c] changed after
  obtain j reference n r' where nudge: "internal_channels_dict cfg channel = Some j"
      "reference_encoder st j = Some reference"
      "target \<noteq> reference" "\<bar>target - reference\<bar> \<le> min_encoder_motion"
      "fuel = Suc n"
      "move_um n cfg channel 10 True True False st dev = (r', st2, dev2)"
      "case r' of Inl e \<Rightarrow> rc = Inl e | Inr x \<Rightarrow> rc = Inr True"
    by blast
  have ji: "j = i" using nudge(1) i by simp
  have "target = (if relative then requested + reference else requested)"
    using t nudge(2) ji by (auto simp: reference_encoder_def split: if_splits)
  then have d: "guard_delta cfg st channel um relative = Some (target - reference)"
    using i req nudge(2) ji by (simp add: guard_delta_def)
  have trig: "\<exists>d. guard_delta cfg st channel um relative = Some d \<and> d \<noteq> 0 \<and> \<bar>d\<bar> \<le> min_encoder_motion"
    using d nudge(3,4) by simp
  have "move_um n cfg channel 10 True True False st dev = (Inl (AssertionError OutOfRange), st1, dev1)
       \<or> (\<exists>r st2 dev2. move_um n cfg channel 10 True True False st dev = (Inr r, st2, dev2))"
  proof (cases r')
    case (Inl e)
    then have "rc = Inl e" using nudge(7) by simp
    with after have "e = AssertionError OutOfRange" by auto
    with Inl nudge(6) after show ?thesis by simp
  next
    case (Inr x)
    with nudge(6) show ?thesis by blast
  qed
  with trig nudge(5) show ?thesis by blast
qed

lemma move_um_out_of_range_from_legalize:
  assumes "move_um fuel cfg channel um relative block verbose_arg st dev
             = (Inl (AssertionError OutOfRange), st', dev')"
  shows "legalize_move_um fuel cfg channel um relative verbose_arg st dev
             = (Inl (AssertionError OutOfRange), st', dev')"
proof -
  obtain r st1 dev1 where l: "legalize_move_um fuel cfg channel um relative verbose_arg st dev = (r, st1, dev1)"
    by (cases "legalize_move_um fuel cfg channel um relative verbose_arg st dev")
  have ch: "channel \<in> set (channels cfg)"
    using assms by (auto simp: move_um.simps split: if_splits)
  show ?thesis
  proof (cases r)
    case (Inl e)
    then show ?thesis
      using assms l ch by (simp add: move_um.simps)
  next
    case (Inr legal_move_um)
    have False
      using assms l Inr ch get_position_um_not_out_of_range
        encoder_value_from_um_not_out_of_range move_to_encoder_value_not_out_of_range
        finish_move_not_out_of_range
      by (fastforce simp: move_um.simps split: if_splits sum.splits prod.splits)
    then show ?thesis ..
  qed
qed

text \<open>
  Claim C2, as amended. The minimum-motion guard runs before the range check, and its
  nudge is a complete blocking move. A request that is rejected as out of range is
  rejected before any byte is written, with the controller state (and so
  \<open>current_encoder_value\<close> and \<open>pending_encoder_value\<close>) and the port as before the
  call, unless the guard was triggered (the target is 1 to \<open>min_encoder_motion\<close>
  counts away from the current or pending encoder value) and a nudge, the relative
  blocking move by 10 um from the same state, was accepted.
\<close>

theorem out_of_range_leaves_state_unless_nudged:
  "move_um fuel cfg channel um relative block verbose_arg st dev
      = (Inl (AssertionError OutOfRange), st', dev') \<Longrightarrow>
   (st' = st \<and> dev' = dev)
   \<or> ((\<exists>d. guard_delta cfg st channel um relative = Some d \<and> d \<noteq> 0 \<and> \<bar>d\<bar> \<le> min_encoder_motion)
      \<and> (\<exists>n r st1 dev1. n < fuel
            \<and> move_um n cfg channel 10 True True False st dev = (Inr r, st1, dev1)))"
proof (induction fuel arbitrary: um relative block verbose_arg rule: less_induct)
  case (less fuel)
  from move_um_out_of_range_from_legalize[OF less.prems]
  have l: "legalize_move_um fuel cfg channel um relative verbose_arg st dev
             = (Inl (AssertionError OutOfRange), st', dev')" .
  from legalize_move_um_out_of_range_cases[OF l]
  consider "st' = st \<and> dev' = dev"
    | d n where "guard_delta cfg st channel um relative = Some d" "d \<noteq> 0"
        "\<bar>d\<bar> \<le> min_encoder_motion" "fuel = Suc n"
        "move_um n cfg channel 10 True True False st dev = (Inl (AssertionError OutOfRange), st', dev')"
    | d n r st2 dev2 where "guard_delta cfg st channel um relative = Some d" "d \<noteq> 0"
        "\<bar>d\<bar> \<le> min_encoder_motion" "fuel = Suc n"
        "move_um n cfg channel 10 True True False st dev = (Inr r, st2, dev2)"
    by blast
  then show ?case
  proof cases
    case 1
    then show ?thesis by simp
  next
    case 2
    have "n < fuel" using 2(4) by simp
    from less.IH[OF this 2(5)]
    have "(st' = st \<and> dev' = dev)
       \<or> (\<exists>m r st1 dev1. m < n \<and> move_um m cfg channel 10 True True False st dev = (Inr r, st1, dev1))"
      by blast
    then show ?thesis
    proof
      assume "st' = st \<and> dev' = dev"
      then show ?thesis by simp
    next
      assume "\<exists>m r st1 dev1. m < n \<and> move_um m cfg channel 10 True True False st dev = (Inr r, st1, dev1)"
      then obtain m r st1 dev1 where "m < n"
          "move_um m cfg channel 10 True True False st dev = (Inr r, st1, dev1)" by blast
      with \<open>n < fuel\<close> have "\<exists>n r st1 dev1. n < fuel
            \<and> move_um n cfg channel 10 True True False st dev = (Inr r, st1, dev1)"
        by (meson less_trans)
      with 2(1,2,3) show ?thesis by blast
    qed
  next
    case 3
    have "n < fuel" using 3(4) by simp
    with 3(5) have "\<exists>n r st1 dev1. n < fuel
            \<and> move_um n cfg channel 10 True True False st dev = (Inr r, st1, dev1)" by blast
    with 3(1,2,3) show ?thesis by blast
  qed
qed

lemmas move_run = move_um.simps legalize_move_um.simps check_min_motion.simps
  move_to_encoder_value_def finish_move_def finish_move_loop.simps get_position_um_def
  min_encoder_motion_def chain_le_def chain_ge_def

theorem out_of_range_leaves_state_unless_nudged_witness:
  "move_um 1 (one_stage_config False) 1 (127002116667 / 10000000) False True False
         (one_stage_controller False 0) (idle_port [(0, []), (10, position_reply 0 60000)])
       = (Inl (AssertionError OutOfRange), one_stage_controller False 0,
          idle_port [(0, []), (10, position_reply 0 60000)])
   \<and> guard_delta (one_stage_config False) (one_stage_controller False 0) 1
         (127002116667 / 10000000) False = Some 60000
   \<and> ((one_stage_controller False 0 = one_stage_controller False 0
        \<and> idle_port [(0, []), (10, position_reply 0 60000)]
            = idle_port [(0, []), (10, position_reply 0 60000)])
       \<or> ((\<exists>d. guard_delta (one_stage_config False) (one_stage_controller False 0) 1
                  (127002116667 / 10000000) False = Some d \<and> d \<noteq> 0 \<and> \<bar>d\<bar> \<le> min_encoder_motion)
          \<and> (\<exists>n r st1 dev1. n < 1
                \<and> move_um n (one_stage_config False) 1 10 True True False
                     (one_stage_controller False 0)
                     (idle_port [(0, []), (10, position_reply 0 60000)]) = (Inr r, st1, dev1))))"
proof -
  let ?cfg = "one_stage_config False"
  let ?st = "one_stage_controller False 0"
  let ?dev = "idle_port [(0, []), (10, position_reply 0 60000)]"
  let ?um = "127002116667 / 10000000 :: real"
  have h1: "move_um 1 ?cfg 1 ?um False True False ?st ?dev
       = (Inl (AssertionError OutOfRange), ?st, ?dev)"
    by (simp add: move_run float_run one_stage_config_simps one_stage_controller_simps)
  have h2: "guard_delta ?cfg ?st 1 ?um False = Some 60000"
    by (simp add: guard_delta_def reference_encoder_def float_run one_stage_config_simps
        one_stage_controller_simps)
  from out_of_range_leaves_state_unless_nudged[OF h1] h1 h2 show ?thesis
    by (intro conjI)
qed

text \<open>
  The claim as first stated fails near the lower edge of the range. The stage stands
  at encoder value -59998 (about -12699.6 um) and is asked to go to -12700.2116667 um,
  one conversion step below the lower limit: the target -60000 is 2 counts away, so
  the guard first makes the 10 um nudge to -59951, a blocking move that is written to
  the device and confirmed, and only then is the request rejected.
\<close>

lemma nudge_then_rejected:
  "move_um 1 (one_stage_config False) 1 (- 127002116667 / 10000000) False True False
     (one_stage_controller False (- 59998)) (idle_port [(0, []), (10, position_reply 0 (- 59951))])
   = (Inl (AssertionError OutOfRange),
      (one_stage_controller False (- 59998))\<lparr>current_encoder_value :=
         (current_encoder_value (one_stage_controller False (- 59998)))(0 := Some (- 59951))\<rparr>,
      \<lparr>written = [[83, 4, 6, 0, 0, 0, 0, 0, 209, 21, 255, 255], [10, 4, 0, 0, 0, 0]],
       received = [position_reply 0 (- 59951)], inbuf = [], replies = [], clock = 10\<rparr>)"
  by (simp add: move_run port_run float_run one_stage_config_simps one_stage_controller_simps)

theorem out_of_range_after_nudge_counterexample:
  "fst (move_um 1 (one_stage_config False) 1 (- 127002116667 / 10000000) False True False
     (one_stage_controller False (- 59998)) (idle_port [(0, []), (10, position_reply 0 (- 59951))]))
     = Inl (AssertionError OutOfRange)
   \<and> written (idle_port [(0, []), (10, position_reply 0 (- 59951))]) = []
   \<and> written (snd (snd (move_um 1 (one_stage_config False) 1 (- 127002116667 / 10000000) False True False
     (one_stage_controller False (- 59998)) (idle_port [(0, []), (10, position_reply 0 (- 59951))]))))
     = [[83, 4, 6, 0, 0, 0, 0, 0, 209, 21, 255, 255], [10, 4, 0, 0, 0, 0]]
   \<and> current_encoder_value (one_stage_controller False (- 59998)) 0 = Some (- 59998)
   \<and> current_encoder_value (fst (snd (move_um 1 (one_stage_config False) 1 (- 127002116667 / 10000000)
     False True False
     (one_stage_controller False (- 59998)) (idle_port [(0, []), (10, position_reply 0 (- 59951))])))) 0
     = Some (- 59951)"
  unfolding nudge_then_rejected
  by (simp add: one_stage_controller_simps idle_port_def)

section \<open>The constructed state\<close>

lemma two_stage_config_simps:
  "channels two_stage_config = [1, 2, 3]"
  "stages two_stage_config 0 = Some ''ZFM2020''"
  "stages two_stage_config (Suc 0) = Some ''ZFM2020''"
  "stages two_stage_config 2 = None"
  "reverse two_stage_config i = False"
  "verbose two_stage_config = False"
  "internal_channels_dict two_stage_config 1 = Some 0"
  "internal_channels_dict two_stage_config 2 = Some 1"
  by (simp_all add: two_stage_config_def internal_channels_dict_def)

text \<open>
  \<open>one_stage_controller\<close> and \<open>two_stage_controller\<close> are the states \<open>init\<close> returns.
\<close>

lemma init_one_stage:
  "init (one_stage_config r) (idle_port [(3, position_reply 0 1000)])
     = (Inr (one_stage_controller r 1000),
        \<lparr>written = [[10, 4, 0, 0, 0, 0]], received = [position_reply 0 1000], inbuf = [],
         replies = [], clock = 3\<rparr>)"
  by (simp add: init_def init_stage_def empty_controller_def supported_stages_def
      reverse_factors_def one_stage_controller_def one_stage_config_def
      internal_channels_dict_def port_run)

lemma init_two_stage:
  "init two_stage_config (idle_port [(3, position_reply 0 0), (3, position_reply 1 0)])
     = (Inr (two_stage_controller 0 0),
        \<lparr>written = [[10, 4, 0, 0, 0, 0], [10, 4, 1, 0, 0, 0]],
         received = [position_reply 0 0, position_reply 1 0], inbuf = [],
         replies = [], clock = 6\<rparr>)"
  by (simp add: init_def init_stage_def empty_controller_def supported_stages_def
      reverse_factors_def two_stage_controller_def two_stage_config_def
      internal_channels_dict_def port_run)

lemma two_stage_controller_simps:
  "stage_upper_limit_um (two_stage_controller e0 e1) 0 = Some 12700"
  "stage_lower_limit_um (two_stage_controller e0 e1) 0 = Some (- 12700)"
  "stage_lowest_scan_point_um (two_stage_controller e0 e1)
     = PerChannel ((\<lambda>_. None)(0 := Some (- 12700), 1 := Some (- 12700)))"
  "stage_highest_scan_point_um (two_stage_controller e0 e1)
     = PerChannel ((\<lambda>_. None)(0 := Some 12700, 1 := Some 12700))"
  "stage_retract_point_um (two_stage_controller e0 e1)
     = PerChannel ((\<lambda>_. None)(0 := Some (12700 - 2116667 / 10000000),
                                1 := Some (12700 - 2116667 / 10000000)))"
  "stage_conversion_um (two_stage_controller e0 e1) 0 = Some (2116667 / 10000000)"
  "stage_conversion_um (two_stage_controller e0 e1) (Suc 0) = Some (2116667 / 10000000)"
  "current_encoder_value (two_stage_controller e0 e1) 0 = Some e0"
  "current_encoder_value (two_stage_controller e0 e1) (Suc 0) = Some e1"
  "pending_encoder_value (two_stage_controller e0 e1) = (\<lambda>_. None)"
  by (simp_all add: two_stage_controller_def)

section \<open>The minimum-motion guard at its threshold\<close>

text \<open>
  Claim C1. A relative request of 1.06 um on a ZFM2020 stage, which is exactly 5
  counts, from encoder value 0 makes the nudge: the move frame to encoder value 47 and its
  confirming query are written before the move frame to encoder value 5. The test in
  \<^verbatim>\<open>_check_min_motion\<close> is \<^verbatim>\<open>abs(...) <= self._min_encoder_motion\<close>.
\<close>

theorem nudge_at_exactly_five_counts:
  "move_um 1 (one_stage_config False) 1 (106 / 100) True True False
     (one_stage_controller False 0)
     (idle_port [(0, []), (10, position_reply 0 47), (0, []), (10, position_reply 0 5)])
   = (Inr (Some (10583335 / 10000000)),
      (one_stage_controller False 0)\<lparr>current_encoder_value :=
         (current_encoder_value (one_stage_controller False 0))(0 := Some 5)\<rparr>,
      \<lparr>written = [[83, 4, 6, 0, 0, 0, 0, 0, 47, 0, 0, 0], [10, 4, 0, 0, 0, 0],
                  [83, 4, 6, 0, 0, 0, 0, 0, 5, 0, 0, 0], [10, 4, 0, 0, 0, 0]],
       received = [position_reply 0 47, position_reply 0 5], inbuf = [], replies = [],
       clock = 20\<rparr>)"
  by (simp add: move_run port_run float_run one_stage_config_simps one_stage_controller_simps)

section \<open>Scan limits and the retract point\<close>

text \<open>
  Claim C4. \<^verbatim>\<open>set_stage_limit_um\<close> assigns the new limit to the attribute itself, not to
  the channel's entry of the list. On a controller with stages on channels 1 and 2,
  setting the lowest scan point of channel 1 to 100 um returns 100 and leaves the float
  100 in place of the three-element list: the lowest scan point of channel 2, -12700
  before the call, can no longer be read. The call that sets the highest scan point
  replaces the list in the same way and then fails with \<^verbatim>\<open>TypeError\<close>, on the comparison of
  the list of retract points with the float.
\<close>

theorem set_stage_limit_um_replaces_the_list:
  "set_stage_limit_um two_stage_config 1 True (Some 100) (two_stage_controller 0 0) (idle_port [])
     = (Inr 100, (two_stage_controller 0 0)\<lparr>stage_lowest_scan_point_um := Scalar 100\<rparr>, idle_port [])
   \<and> subscript (stage_lowest_scan_point_um (two_stage_controller 0 0)) 0 = Inr (Some (- 12700))
   \<and> subscript (stage_lowest_scan_point_um (two_stage_controller 0 0)) 1 = Inr (Some (- 12700))
   \<and> subscript (stage_lowest_scan_point_um
         ((two_stage_controller 0 0)\<lparr>stage_lowest_scan_point_um := Scalar 100\<rparr>)) 0 = Inl TypeError
   \<and> subscript (stage_lowest_scan_point_um
         ((two_stage_controller 0 0)\<lparr>stage_lowest_scan_point_um := Scalar 100\<rparr>)) 1 = Inl TypeError
   \<and> set_stage_limit_um two_stage_config 1 False (Some 100) (two_stage_controller 0 0) (idle_port [])
     = (Inl TypeError, (two_stage_controller 0 0)\<lparr>stage_highest_scan_point_um := Scalar 100\<rparr>,
        idle_port [])"
  by (simp add: set_stage_limit_um_def chain_le_def two_stage_config_simps
      two_stage_controller_simps)

text \<open>
  In general, a call of \<^verbatim>\<open>set_stage_limit_um\<close> that returns leaves a float for the list
  of lowest scan points, and a call that sets the highest scan point does not return
  as long as the retract points are the constructor's list.
\<close>

lemma set_stage_limit_um_rebinds:
  assumes "set_stage_limit_um cfg channel lower_limit limit_um st dev = (Inr v, st', dev')"
  shows "if lower_limit then stage_lowest_scan_point_um st' = Scalar v
         else stage_highest_scan_point_um st' = Scalar v"
  using assms
  by (auto simp: set_stage_limit_um_def Let_def
      split: if_splits option.splits sum.splits prod.splits bool.splits)

lemma set_stage_limit_um_highest_fails:
  assumes "stage_retract_point_um st = PerChannel xs"
  shows "fst (set_stage_limit_um cfg channel False limit_um st dev) \<noteq> Inr v"
  using assms
  by (auto simp: set_stage_limit_um_def Let_def
      split: if_splits option.splits sum.splits prod.splits bool.splits)

text \<open>
  Claim C5. The two branches of \<^verbatim>\<open>set_retract_point_um\<close> compare in the direction
  of the other kind of axis. On an axis as constructed, reversed or not, a target of
  100 um lies between the scan points -12700 and 12700 and is refused; on the axis
  that is not reversed the failing assertion's message raises \<^verbatim>\<open>AttributeError\<close>.
\<close>

theorem set_retract_point_um_refuses_target_in_range:
  "set_retract_point_um (one_stage_config False) 1 (Some 100) False (one_stage_controller False 0)
       (idle_port [])
     = (Inl AttributeError, one_stage_controller False 0, idle_port [])
   \<and> set_retract_point_um (one_stage_config True) 1 (Some 100) False (one_stage_controller True 0)
       (idle_port [])
     = (Inl (AssertionError OutOfRange), one_stage_controller True 0, idle_port [])
   \<and> subscript (stage_lowest_scan_point_um (one_stage_controller False 0)) 0 = Inr (Some (- 12700))
   \<and> subscript (stage_highest_scan_point_um (one_stage_controller False 0)) 0 = Inr (Some 12700)
   \<and> subscript (stage_lowest_scan_point_um (one_stage_controller True 0)) 0 = Inr (Some 12700)
   \<and> subscript (stage_highest_scan_point_um (one_stage_controller True 0)) 0 = Inr (Some (- 12700))"
  by (simp add: set_retract_point_um_def one_stage_config_simps one_stage_controller_simps)

text \<open>
  In general, on an axis that is not reversed an explicit target is accepted exactly
  when it lies between the highest scan point below and the lowest scan point above.
\<close>

lemma set_retract_point_um_accepts:
  assumes "channel \<in> set (channels cfg)"
    and "internal_channels_dict cfg channel = Some i"
    and "\<not> reverse cfg i"
    and "subscript (stage_lowest_scan_point_um st) i = Inr (Some lowest)"
    and "subscript (stage_highest_scan_point_um st) i = Inr (Some highest)"
    and "target \<noteq> 0"
  shows "fst (set_retract_point_um cfg channel (Some target) False st dev) = Inr target
           \<longleftrightarrow> highest \<le> target \<and> target \<le> lowest"
  using assms by (auto simp: set_retract_point_um_def split: bool.splits sum.splits)

section \<open>Moving to zero\<close>

text \<open>
  Claim C6. \<^verbatim>\<open>move_zero\<close> calls \<^verbatim>\<open>move_um(channel, 0, relative=False)\<close>. The legalized
  value is 0.0, and \<^verbatim>\<open>if not legal_move_um:\<close> takes 0.0 for ``no need to move''. With
  the stage at encoder value 1000 the call returns \<^verbatim>\<open>None\<close>; nothing is written to
  the device and the state is unchanged.
\<close>

theorem move_zero_does_not_move:
  "move_zero 1 (one_stage_config False) 1 True (one_stage_controller False 1000)
       (idle_port [(0, []), (10, position_reply 0 0)])
     = (Inr None, one_stage_controller False 1000, idle_port [(0, []), (10, position_reply 0 0)])
   \<and> legalize_move_um 1 (one_stage_config False) 1 0 False False (one_stage_controller False 1000)
       (idle_port [(0, []), (10, position_reply 0 0)])
     = (Inr (Some 0), one_stage_controller False 1000, idle_port [(0, []), (10, position_reply 0 0)])"
  by (simp add: move_zero_def move_run float_run one_stage_config_simps one_stage_controller_simps)

text \<open>
  More generally, \<^verbatim>\<open>move_zero\<close> never returns a legalized value: whenever
  \<open>legalize_move_um\<close> accepts the absolute request 0 its value is 0.0, which \<open>move_um\<close>
  reads as false.
\<close>

lemma legalize_zero_value:
  assumes "legalize_move_um fuel cfg channel 0 False verbose_arg st dev = (Inr (Some v), st1, dev1)"
  shows "v = 0"
proof -
  have "requested = 0" if "encoder_value_from_um cfg st channel 0 = Inr requested" for requested
    using that
    by (auto simp: encoder_value_from_um_def py_int_def Let_def split: option.splits if_splits)
  moreover have "fval target_move_um = 0"
    if "um_from_encoder_value cfg st1 channel 0 = Inr target_move_um" for target_move_um
    using that
    by (auto simp: um_from_encoder_value_def fmul_def fadd_def Let_def
        split: option.splits if_splits)
  ultimately show ?thesis
    using assms
    by (auto simp: legalize_move_um.simps[of fuel cfg channel 0 False verbose_arg st dev] Let_def
        split: if_splits sum.splits prod.splits bool.splits option.splits)
qed

lemma move_zero_returns_no_value:
  "fst (move_zero fuel cfg channel block st dev) \<noteq> Inr (Some v)"
proof
  assume a: "fst (move_zero fuel cfg channel block st dev) = Inr (Some v)"
  obtain r st1 dev1 where l: "legalize_move_um fuel cfg channel 0 False False st dev = (r, st1, dev1)"
    by (cases "legalize_move_um fuel cfg channel 0 False False st dev")
  show False
  proof (cases r)
    case (Inl e)
    then show ?thesis
      using a l
      by (auto simp: move_zero_def move_um.simps[of fuel cfg channel 0 False block False st dev]
          split: if_splits)
  next
    case (Inr legal)
    have "\<not> truthy_float legal"
    proof (cases legal)
      case None
      then show ?thesis by simp
    next
      case (Some x)
      then have "x = 0" using l Inr legalize_zero_value by blast
      with Some show ?thesis by simp
    qed
    then show ?thesis
      using a l Inr
      by (auto simp: move_zero_def move_um.simps[of fuel cfg channel 0 False block False st dev]
          split: if_splits sum.splits prod.splits)
  qed
qed

end
